theory Spec2Isabelle
  imports Main "HOL-Library.Sublist" "HOL-Library.AList"
begin

section \<open>Python values\<close>

text \<open>
  A Python \<^verbatim>\<open>str\<close> is a sequence of Unicode code points. The currency pattern of
  \<^verbatim>\<open>extract_cost\<close> holds a code point beyond Latin-1, so a character is a natural
  number (its code point) and not an 8-bit \<^typ>\<open>char\<close>.
\<close>

type_synonym pystr = "nat list"

definition lit :: "string \<Rightarrow> pystr" where
  "lit s = map of_char s"

text \<open>
  The values a field of an article holds: \<^verbatim>\<open>None\<close>, a string, or a value of another
  type (an integer stands for those; \<^verbatim>\<open>0\<close> is falsy, the others truthy).
\<close>

datatype pyval = PyNone | PyStr pystr | PyInt int

datatype error = AttributeError

fun truthy :: "pyval \<Rightarrow> bool" where
  "truthy PyNone = False"
| "truthy (PyStr s) = (s \<noteq> [])"
| "truthy (PyInt i) = (i \<noteq> 0)"

text \<open>\<^verbatim>\<open>x or y\<close>\<close>

definition py_or :: "pyval \<Rightarrow> pyval \<Rightarrow> pyval" where
  "py_or x y = (if truthy x then x else y)"

text \<open>
  \<^verbatim>\<open>str.lower\<close> (Unicode 14.0). The simple lower-case mappings, as runs of code
  points: the first and the last code point of the run, the step between its members,
  and the image of the first; the images go up with the members. A code point in no run
  is its own image.
\<close>

definition lower_table :: "(nat \<times> nat \<times> nat \<times> nat) list" where
  "lower_table =
     [(65, 90, 1, 97), (192, 214, 1, 224), (216, 222, 1, 248), (256, 302, 2, 257),
      (306, 310, 2, 307), (313, 327, 2, 314), (330, 374, 2, 331), (376, 376, 1, 255),
      (377, 381, 2, 378), (385, 385, 1, 595), (386, 388, 2, 387), (390, 390, 1, 596),
      (391, 391, 1, 392), (393, 394, 1, 598), (395, 395, 1, 396), (398, 398, 1, 477),
      (399, 399, 1, 601), (400, 400, 1, 603), (401, 401, 1, 402), (403, 403, 1, 608),
      (404, 404, 1, 611), (406, 406, 1, 617), (407, 407, 1, 616), (408, 408, 1, 409),
      (412, 412, 1, 623), (413, 413, 1, 626), (415, 415, 1, 629), (416, 420, 2, 417),
      (422, 422, 1, 640), (423, 423, 1, 424), (425, 425, 1, 643), (428, 428, 1, 429),
      (430, 430, 1, 648), (431, 431, 1, 432), (433, 434, 1, 650), (435, 437, 2, 436),
      (439, 439, 1, 658), (440, 440, 1, 441), (444, 444, 1, 445), (452, 452, 1, 454),
      (453, 453, 1, 454), (455, 455, 1, 457), (456, 456, 1, 457), (458, 458, 1, 460),
      (459, 475, 2, 460), (478, 494, 2, 479), (497, 497, 1, 499), (498, 500, 2, 499),
      (502, 502, 1, 405), (503, 503, 1, 447), (504, 542, 2, 505), (544, 544, 1, 414),
      (546, 562, 2, 547), (570, 570, 1, 11365), (571, 571, 1, 572), (573, 573, 1, 410),
      (574, 574, 1, 11366), (577, 577, 1, 578), (579, 579, 1, 384), (580, 580, 1, 649),
      (581, 581, 1, 652), (582, 590, 2, 583), (880, 882, 2, 881), (886, 886, 1, 887),
      (895, 895, 1, 1011), (902, 902, 1, 940), (904, 906, 1, 941), (908, 908, 1, 972),
      (910, 911, 1, 973), (913, 929, 1, 945), (931, 939, 1, 963), (975, 975, 1, 983),
      (984, 1006, 2, 985), (1012, 1012, 1, 952), (1015, 1015, 1, 1016),
      (1017, 1017, 1, 1010), (1018, 1018, 1, 1019), (1021, 1023, 1, 891),
      (1024, 1039, 1, 1104), (1040, 1071, 1, 1072), (1120, 1152, 2, 1121),
      (1162, 1214, 2, 1163), (1216, 1216, 1, 1231), (1217, 1229, 2, 1218),
      (1232, 1326, 2, 1233), (1329, 1366, 1, 1377), (4256, 4293, 1, 11520),
      (4295, 4295, 1, 11559), (4301, 4301, 1, 11565), (5024, 5103, 1, 43888),
      (5104, 5109, 1, 5112), (7312, 7354, 1, 4304), (7357, 7359, 1, 4349),
      (7680, 7828, 2, 7681), (7838, 7838, 1, 223), (7840, 7934, 2, 7841),
      (7944, 7951, 1, 7936), (7960, 7965, 1, 7952), (7976, 7983, 1, 7968),
      (7992, 7999, 1, 7984), (8008, 8013, 1, 8000), (8025, 8031, 2, 8017),
      (8040, 8047, 1, 8032), (8072, 8079, 1, 8064), (8088, 8095, 1, 8080),
      (8104, 8111, 1, 8096), (8120, 8121, 1, 8112), (8122, 8123, 1, 8048),
      (8124, 8124, 1, 8115), (8136, 8139, 1, 8050), (8140, 8140, 1, 8131),
      (8152, 8153, 1, 8144), (8154, 8155, 1, 8054), (8168, 8169, 1, 8160),
      (8170, 8171, 1, 8058), (8172, 8172, 1, 8165), (8184, 8185, 1, 8056),
      (8186, 8187, 1, 8060), (8188, 8188, 1, 8179), (8486, 8486, 1, 969),
      (8490, 8490, 1, 107), (8491, 8491, 1, 229), (8498, 8498, 1, 8526),
      (8544, 8559, 1, 8560), (8579, 8579, 1, 8580), (9398, 9423, 1, 9424),
      (11264, 11311, 1, 11312), (11360, 11360, 1, 11361), (11362, 11362, 1, 619),
      (11363, 11363, 1, 7549), (11364, 11364, 1, 637), (11367, 11371, 2, 11368),
      (11373, 11373, 1, 593), (11374, 11374, 1, 625), (11375, 11375, 1, 592),
      (11376, 11376, 1, 594), (11378, 11378, 1, 11379), (11381, 11381, 1, 11382),
      (11390, 11391, 1, 575), (11392, 11490, 2, 11393), (11499, 11501, 2, 11500),
      (11506, 11506, 1, 11507), (42560, 42604, 2, 42561), (42624, 42650, 2, 42625),
      (42786, 42798, 2, 42787), (42802, 42862, 2, 42803), (42873, 42875, 2, 42874),
      (42877, 42877, 1, 7545), (42878, 42886, 2, 42879), (42891, 42891, 1, 42892),
      (42893, 42893, 1, 613), (42896, 42898, 2, 42897), (42902, 42920, 2, 42903),
      (42922, 42922, 1, 614), (42923, 42923, 1, 604), (42924, 42924, 1, 609),
      (42925, 42925, 1, 620), (42926, 42926, 1, 618), (42928, 42928, 1, 670),
      (42929, 42929, 1, 647), (42930, 42930, 1, 669), (42931, 42931, 1, 43859),
      (42932, 42946, 2, 42933), (42948, 42948, 1, 42900), (42949, 42949, 1, 642),
      (42950, 42950, 1, 7566), (42951, 42953, 2, 42952), (42960, 42960, 1, 42961),
      (42966, 42968, 2, 42967), (42997, 42997, 1, 42998), (65313, 65338, 1, 65345),
      (66560, 66599, 1, 66600), (66736, 66771, 1, 66776), (66928, 66964, 2, 66967),
      (66929, 66937, 2, 66968), (66941, 66953, 2, 66980), (66957, 66961, 2, 66996),
      (66965, 66965, 1, 67004), (68736, 68786, 1, 68800), (71840, 71871, 1, 71872),
      (93760, 93791, 1, 93792), (125184, 125217, 1, 125218)]"

definition to_lower :: "nat \<Rightarrow> nat" where
  "to_lower c =
     (case find (\<lambda>(lo, hi, step, img). lo \<le> c \<and> c \<le> hi \<and> (c - lo) mod step = 0)
             lower_table of
        None \<Rightarrow> c
      | Some (lo, hi, step, img) \<Rightarrow> img + (c - lo))"

text \<open>
  The full mapping of one code point: \<^verbatim>\<open>U+0130\<close> becomes the two code points
  \<^verbatim>\<open>U+0069 U+0307\<close>, every other code point its simple image.
\<close>

definition lower_char :: "nat \<Rightarrow> pystr" where
  "lower_char c = (if c = 304 then [105, 775] else [to_lower c])"

text \<open>
  The capital sigma \<^verbatim>\<open>U+03A3\<close> becomes the final sigma \<^verbatim>\<open>U+03C2\<close> when a cased code
  point stands before it and none after it, code points that are case-ignorable being
  skipped on both sides; otherwise it becomes \<^verbatim>\<open>U+03C3\<close>. The two properties, as
  ranges of code points:
\<close>

definition case_ignorable_ranges :: "(nat \<times> nat) list" where
  "case_ignorable_ranges =
     [(39, 39), (46, 46), (58, 58), (94, 94), (96, 96), (168, 168), (173, 173), (175, 175),
      (180, 180), (183, 184), (688, 879), (884, 885), (890, 890), (900, 901), (903, 903),
      (1155, 1161), (1369, 1369), (1375, 1375), (1425, 1469), (1471, 1471), (1473, 1474),
      (1476, 1477), (1479, 1479), (1524, 1524), (1536, 1541), (1552, 1562), (1564, 1564),
      (1600, 1600), (1611, 1631), (1648, 1648), (1750, 1757), (1759, 1768), (1770, 1773),
      (1807, 1807), (1809, 1809), (1840, 1866), (1958, 1968), (2027, 2037), (2042, 2042),
      (2045, 2045), (2070, 2093), (2137, 2139), (2184, 2184), (2192, 2193), (2200, 2207),
      (2249, 2306), (2362, 2362), (2364, 2364), (2369, 2376), (2381, 2381), (2385, 2391),
      (2402, 2403), (2417, 2417), (2433, 2433), (2492, 2492), (2497, 2500), (2509, 2509),
      (2530, 2531), (2558, 2558), (2561, 2562), (2620, 2620), (2625, 2626), (2631, 2632),
      (2635, 2637), (2641, 2641), (2672, 2673), (2677, 2677), (2689, 2690), (2748, 2748),
      (2753, 2757), (2759, 2760), (2765, 2765), (2786, 2787), (2810, 2815), (2817, 2817),
      (2876, 2876), (2879, 2879), (2881, 2884), (2893, 2893), (2901, 2902), (2914, 2915),
      (2946, 2946), (3008, 3008), (3021, 3021), (3072, 3072), (3076, 3076), (3132, 3132),
      (3134, 3136), (3142, 3144), (3146, 3149), (3157, 3158), (3170, 3171), (3201, 3201),
      (3260, 3260), (3263, 3263), (3270, 3270), (3276, 3277), (3298, 3299), (3328, 3329),
      (3387, 3388), (3393, 3396), (3405, 3405), (3426, 3427), (3457, 3457), (3530, 3530),
      (3538, 3540), (3542, 3542), (3633, 3633), (3636, 3642), (3654, 3662), (3761, 3761),
      (3764, 3772), (3782, 3782), (3784, 3789), (3864, 3865), (3893, 3893), (3895, 3895),
      (3897, 3897), (3953, 3966), (3968, 3972), (3974, 3975), (3981, 3991), (3993, 4028),
      (4038, 4038), (4141, 4144), (4146, 4151), (4153, 4154), (4157, 4158), (4184, 4185),
      (4190, 4192), (4209, 4212), (4226, 4226), (4229, 4230), (4237, 4237), (4253, 4253),
      (4348, 4348), (4957, 4959), (5906, 5908), (5938, 5939), (5970, 5971), (6002, 6003),
      (6068, 6069), (6071, 6077), (6086, 6086), (6089, 6099), (6103, 6103), (6109, 6109),
      (6155, 6159), (6211, 6211), (6277, 6278), (6313, 6313), (6432, 6434), (6439, 6440),
      (6450, 6450), (6457, 6459), (6679, 6680), (6683, 6683), (6742, 6742), (6744, 6750),
      (6752, 6752), (6754, 6754), (6757, 6764), (6771, 6780), (6783, 6783), (6823, 6823),
      (6832, 6862), (6912, 6915), (6964, 6964), (6966, 6970), (6972, 6972), (6978, 6978),
      (7019, 7027), (7040, 7041), (7074, 7077), (7080, 7081), (7083, 7085), (7142, 7142),
      (7144, 7145), (7149, 7149), (7151, 7153), (7212, 7219), (7222, 7223), (7288, 7293),
      (7376, 7378), (7380, 7392), (7394, 7400), (7405, 7405), (7412, 7412), (7416, 7417),
      (7468, 7530), (7544, 7544), (7579, 7679), (8125, 8125), (8127, 8129), (8141, 8143),
      (8157, 8159), (8173, 8175), (8189, 8190), (8203, 8207), (8216, 8217), (8228, 8228),
      (8231, 8231), (8234, 8238), (8288, 8292), (8294, 8303), (8305, 8305), (8319, 8319),
      (8336, 8348), (8400, 8432), (11388, 11389), (11503, 11505), (11631, 11631),
      (11647, 11647), (11744, 11775), (11823, 11823), (12293, 12293), (12330, 12333),
      (12337, 12341), (12347, 12347), (12441, 12446), (12540, 12542), (40981, 40981),
      (42232, 42237), (42508, 42508), (42607, 42610), (42612, 42621), (42623, 42623),
      (42652, 42655), (42736, 42737), (42752, 42785), (42864, 42864), (42888, 42890),
      (42994, 42996), (43000, 43001), (43010, 43010), (43014, 43014), (43019, 43019),
      (43045, 43046), (43052, 43052), (43204, 43205), (43232, 43249), (43263, 43263),
      (43302, 43309), (43335, 43345), (43392, 43394), (43443, 43443), (43446, 43449),
      (43452, 43453), (43471, 43471), (43493, 43494), (43561, 43566), (43569, 43570),
      (43573, 43574), (43587, 43587), (43596, 43596), (43632, 43632), (43644, 43644),
      (43696, 43696), (43698, 43700), (43703, 43704), (43710, 43711), (43713, 43713),
      (43741, 43741), (43756, 43757), (43763, 43764), (43766, 43766), (43867, 43871),
      (43881, 43883), (44005, 44005), (44008, 44008), (44013, 44013), (64286, 64286),
      (64434, 64450), (65024, 65039), (65043, 65043), (65056, 65071), (65106, 65106),
      (65109, 65109), (65279, 65279), (65287, 65287), (65294, 65294), (65306, 65306),
      (65342, 65342), (65344, 65344), (65392, 65392), (65438, 65439), (65507, 65507),
      (65529, 65531), (66045, 66045), (66272, 66272), (66422, 66426), (67456, 67461),
      (67463, 67504), (67506, 67514), (68097, 68099), (68101, 68102), (68108, 68111),
      (68152, 68154), (68159, 68159), (68325, 68326), (68900, 68903), (69291, 69292),
      (69446, 69456), (69506, 69509), (69633, 69633), (69688, 69702), (69744, 69744),
      (69747, 69748), (69759, 69761), (69811, 69814), (69817, 69818), (69821, 69821),
      (69826, 69826), (69837, 69837), (69888, 69890), (69927, 69931), (69933, 69940),
      (70003, 70003), (70016, 70017), (70070, 70078), (70089, 70092), (70095, 70095),
      (70191, 70193), (70196, 70196), (70198, 70199), (70206, 70206), (70367, 70367),
      (70371, 70378), (70400, 70401), (70459, 70460), (70464, 70464), (70502, 70508),
      (70512, 70516), (70712, 70719), (70722, 70724), (70726, 70726), (70750, 70750),
      (70835, 70840), (70842, 70842), (70847, 70848), (70850, 70851), (71090, 71093),
      (71100, 71101), (71103, 71104), (71132, 71133), (71219, 71226), (71229, 71229),
      (71231, 71232), (71339, 71339), (71341, 71341), (71344, 71349), (71351, 71351),
      (71453, 71455), (71458, 71461), (71463, 71467), (71727, 71735), (71737, 71738),
      (71995, 71996), (71998, 71998), (72003, 72003), (72148, 72151), (72154, 72155),
      (72160, 72160), (72193, 72202), (72243, 72248), (72251, 72254), (72263, 72263),
      (72273, 72278), (72281, 72283), (72330, 72342), (72344, 72345), (72752, 72758),
      (72760, 72765), (72767, 72767), (72850, 72871), (72874, 72880), (72882, 72883),
      (72885, 72886), (73009, 73014), (73018, 73018), (73020, 73021), (73023, 73029),
      (73031, 73031), (73104, 73105), (73109, 73109), (73111, 73111), (73459, 73460),
      (78896, 78904), (92912, 92916), (92976, 92982), (92992, 92995), (94031, 94031),
      (94095, 94111), (94176, 94177), (94179, 94180), (110576, 110579), (110581, 110587),
      (110589, 110590), (113821, 113822), (113824, 113827), (118528, 118573),
      (118576, 118598), (119143, 119145), (119155, 119170), (119173, 119179),
      (119210, 119213), (119362, 119364), (121344, 121398), (121403, 121452),
      (121461, 121461), (121476, 121476), (121499, 121503), (121505, 121519),
      (122880, 122886), (122888, 122904), (122907, 122913), (122915, 122916),
      (122918, 122922), (123184, 123197), (123566, 123566), (123628, 123631),
      (125136, 125142), (125252, 125259), (127995, 127999), (917505, 917505),
      (917536, 917631), (917760, 917999)]"

definition cased_ranges :: "(nat \<times> nat) list" where
  "cased_ranges =
     [(65, 90), (97, 122), (170, 170), (181, 181), (186, 186), (192, 214), (216, 246),
      (248, 442), (444, 447), (452, 659), (661, 696), (704, 705), (736, 740), (837, 837),
      (880, 883), (886, 887), (890, 893), (895, 895), (902, 902), (904, 906), (908, 908),
      (910, 929), (931, 1013), (1015, 1153), (1162, 1327), (1329, 1366), (1376, 1416),
      (4256, 4293), (4295, 4295), (4301, 4301), (4304, 4346), (4349, 4351), (5024, 5109),
      (5112, 5117), (7296, 7304), (7312, 7354), (7357, 7359), (7424, 7615), (7680, 7957),
      (7960, 7965), (7968, 8005), (8008, 8013), (8016, 8023), (8025, 8025), (8027, 8027),
      (8029, 8029), (8031, 8061), (8064, 8116), (8118, 8124), (8126, 8126), (8130, 8132),
      (8134, 8140), (8144, 8147), (8150, 8155), (8160, 8172), (8178, 8180), (8182, 8188),
      (8305, 8305), (8319, 8319), (8336, 8348), (8450, 8450), (8455, 8455), (8458, 8467),
      (8469, 8469), (8473, 8477), (8484, 8484), (8486, 8486), (8488, 8488), (8490, 8493),
      (8495, 8500), (8505, 8505), (8508, 8511), (8517, 8521), (8526, 8526), (8544, 8575),
      (8579, 8580), (9398, 9449), (11264, 11492), (11499, 11502), (11506, 11507),
      (11520, 11557), (11559, 11559), (11565, 11565), (42560, 42605), (42624, 42653),
      (42786, 42887), (42891, 42894), (42896, 42954), (42960, 42961), (42963, 42963),
      (42965, 42969), (42997, 42998), (43000, 43002), (43824, 43866), (43868, 43880),
      (43888, 43967), (64256, 64262), (64275, 64279), (65313, 65338), (65345, 65370),
      (66560, 66639), (66736, 66771), (66776, 66811), (66928, 66938), (66940, 66954),
      (66956, 66962), (66964, 66965), (66967, 66977), (66979, 66993), (66995, 67001),
      (67003, 67004), (67456, 67456), (67459, 67461), (67463, 67504), (67506, 67514),
      (68736, 68786), (68800, 68850), (71840, 71903), (93760, 93823), (119808, 119892),
      (119894, 119964), (119966, 119967), (119970, 119970), (119973, 119974),
      (119977, 119980), (119982, 119993), (119995, 119995), (119997, 120003),
      (120005, 120069), (120071, 120074), (120077, 120084), (120086, 120092),
      (120094, 120121), (120123, 120126), (120128, 120132), (120134, 120134),
      (120138, 120144), (120146, 120485), (120488, 120512), (120514, 120538),
      (120540, 120570), (120572, 120596), (120598, 120628), (120630, 120654),
      (120656, 120686), (120688, 120712), (120714, 120744), (120746, 120770),
      (120772, 120779), (122624, 122633), (122635, 122654), (125184, 125251),
      (127280, 127305), (127312, 127337), (127344, 127369)]"

definition in_ranges :: "(nat \<times> nat) list \<Rightarrow> nat \<Rightarrow> bool" where
  "in_ranges rs c = list_ex (\<lambda>(lo, hi). lo \<le> c \<and> c \<le> hi) rs"

definition is_case_ignorable :: "nat \<Rightarrow> bool" where
  "is_case_ignorable c = in_ranges case_ignorable_ranges c"

definition is_cased :: "nat \<Rightarrow> bool" where
  "is_cased c = in_ranges cased_ranges c"

definition next_is_cased :: "pystr \<Rightarrow> bool" where
  "next_is_cased s =
     (case dropWhile is_case_ignorable s of [] \<Rightarrow> False | c # _ \<Rightarrow> is_cased c)"

definition final_sigma :: "pystr \<Rightarrow> pystr \<Rightarrow> bool" where
  "final_sigma before after = (next_is_cased before \<and> \<not> next_is_cased after)"

text \<open>
  The text is mapped from the left; \<open>before\<close> holds the code points already passed,
  the nearest first.
\<close>

fun lower_from :: "pystr \<Rightarrow> pystr \<Rightarrow> pystr" where
  "lower_from before [] = []"
| "lower_from before (c # after) =
     (if c = 931 then [if final_sigma before after then 962 else 963] else lower_char c)
       @ lower_from (c # before) after"

definition lower :: "pystr \<Rightarrow> pystr" where
  "lower s = lower_from [] s"

text \<open>\<^verbatim>\<open>v.lower()\<close>: only a string has the method.\<close>

fun py_lower :: "pyval \<Rightarrow> error + pystr" where
  "py_lower (PyStr s) = Inr (lower s)"
| "py_lower PyNone = Inl AttributeError"
| "py_lower (PyInt i) = Inl AttributeError"

text \<open>\<^verbatim>\<open>needle in haystack\<close> on strings: the needle occurs as a contiguous substring.\<close>

fun str_in :: "pystr \<Rightarrow> pystr \<Rightarrow> bool" where
  "str_in needle [] = (needle = [])"
| "str_in needle (c # cs) = (prefix needle (c # cs) \<or> str_in needle cs)"

section \<open>Articles and data points\<close>

text \<open>
  An article is a dictionary from field names to values; \<^verbatim>\<open>article.get(k)\<close> is
  \<^verbatim>\<open>None\<close> for a missing key. An entry of the batch is an article or \<^verbatim>\<open>None\<close>.
\<close>

type_synonym article = "string \<rightharpoonup> pyval"

definition dict_get :: "article \<Rightarrow> string \<Rightarrow> pyval" where
  "dict_get d k = (case d k of None \<Rightarrow> PyNone | Some v \<Rightarrow> v)"

text \<open>
  A data point is a dictionary built by insertion: an association list in insertion
  order with distinct keys. \<^verbatim>\<open>data_point[k] = v\<close> is \<^const>\<open>AList.update\<close>, and
  \<^verbatim>\<open>len(data_point)\<close> is the length of the list.
\<close>

type_synonym data_point = "(string \<times> pyval) list"

section \<open>The regular expressions\<close>

text \<open>
  \<^verbatim>\<open>\d\<close> in a \<^verbatim>\<open>str\<close> pattern is any decimal digit of Unicode (category Nd): the
  ASCII digits and the digits of the other scripts, each a run of ten code points from
  its zero (Unicode 14.0).
\<close>

definition nd_zeros :: "nat list" where
  "nd_zeros =
     [48, 1632, 1776, 1984, 2406, 2534, 2662, 2790, 2918, 3046, 3174, 3302, 3430, 3558,
      3664, 3792, 3872, 4160, 4240, 6112, 6160, 6470, 6608, 6784, 6800, 6992, 7088, 7232,
      7248, 42528, 43216, 43264, 43472, 43504, 43600, 44016, 65296, 66720, 68912, 69734,
      69872, 69942, 70096, 70384, 70736, 70864, 71248, 71360, 71472, 71904, 72016, 72784,
      73040, 73120, 92768, 92864, 93008, 120782, 120792, 120802, 120812, 120822, 123200,
      123632, 125264, 130032]"

definition is_digit :: "nat \<Rightarrow> bool" where
  "is_digit c = list_ex (\<lambda>z. z \<le> c \<and> c < z + 10) nd_zeros"

definition percent :: nat where "percent = 37"
definition dot :: nat where "dot = 46"
definition comma :: nat where "comma = 44"

text \<open>
  The character class of the cost pattern, as the source file has it: the dollar sign
  \<^verbatim>\<open>U+0024\<close> and the three code points \<^verbatim>\<open>U+00E2\<close>, \<^verbatim>\<open>U+201A\<close>, \<^verbatim>\<open>U+00B9\<close>.
\<close>

definition is_currency_symbol :: "nat \<Rightarrow> bool" where
  "is_currency_symbol c = (c = 36 \<or> c = 226 \<or> c = 8218 \<or> c = 185)"

text \<open>
  \<^verbatim>\<open>\d+\<close>, greedy: the longest run of digits at the head of the text, which must not
  be empty; the result is the run and the text after it.
\<close>

definition digits_plus :: "pystr \<Rightarrow> (pystr \<times> pystr) option" where
  "digits_plus s =
     (if takeWhile is_digit s = [] then None
      else Some (takeWhile is_digit s, dropWhile is_digit s))"

text \<open>
  \<^verbatim>\<open>(\d+(?:\.\d+)?)%\<close> tried at the head of the text: group 1 and the text after the
  match. A shorter run of digits is followed by a digit, which is neither a dot nor a
  percent sign, so backtracking into \<^verbatim>\<open>\d+\<close> never finds another match.
\<close>

definition match_percentage :: "pystr \<Rightarrow> (pystr \<times> pystr) option" where
  "match_percentage s =
     (case digits_plus s of
        None \<Rightarrow> None
      | Some (d1, r1) \<Rightarrow>
          (case r1 of
             [] \<Rightarrow> None
           | c # r2 \<Rightarrow>
               if c = percent then Some (d1, r2)
               else if c = dot then
                 (case digits_plus r2 of
                    None \<Rightarrow> None
                  | Some (d2, r3) \<Rightarrow>
                      (case r3 of
                         [] \<Rightarrow> None
                       | p # r4 \<Rightarrow> if p = percent then Some (d1 @ [dot] @ d2, r4) else None))
               else None))"

text \<open>\<^verbatim>\<open>(?:,\d+)*\<close>, greedy: the matched text and the text after it.\<close>

function comma_groups :: "pystr \<Rightarrow> pystr \<times> pystr" where
  "comma_groups s =
     (case s of
        [] \<Rightarrow> ([], s)
      | c # r \<Rightarrow>
          if c = comma \<and> takeWhile is_digit r \<noteq> [] then
            (case comma_groups (dropWhile is_digit r) of
               (g, r') \<Rightarrow> ([comma] @ takeWhile is_digit r @ g, r'))
          else ([], s))"
  by pat_completeness auto
termination
proof (relation "measure length")
  show "wf (measure length)" by simp
next
  fix s :: pystr and c r
  assume "s = c # r"
  moreover have "length (dropWhile is_digit r) \<le> length r"
    by (rule length_dropWhile_le)
  ultimately show "(dropWhile is_digit r, s) \<in> measure length" by simp
qed

text \<open>\<^verbatim>\<open>(?:\.\d+)?\<close>, greedy.\<close>

definition decimal_part :: "pystr \<Rightarrow> pystr \<times> pystr" where
  "decimal_part s =
     (case s of
        [] \<Rightarrow> ([], s)
      | c # r \<Rightarrow>
          if c = dot \<and> takeWhile is_digit r \<noteq> [] then
            ([dot] @ takeWhile is_digit r, dropWhile is_digit r)
          else ([], s))"

text \<open>
  \<^verbatim>\<open>[\$...](\d+(?:,\d+)*(?:\.\d+)?)\<close> tried at the head of the text: group 1 and the text
  after the match. Nothing follows the optional parts in the pattern, so the greedy
  choice is the match.
\<close>

definition match_cost :: "pystr \<Rightarrow> (pystr \<times> pystr) option" where
  "match_cost s =
     (case s of
        [] \<Rightarrow> None
      | c # r \<Rightarrow>
          if is_currency_symbol c then
            (case digits_plus r of
               None \<Rightarrow> None
             | Some (d1, r1) \<Rightarrow>
                 (case comma_groups r1 of
                    (g, r2) \<Rightarrow>
                      (case decimal_part r2 of
                         (f, r3) \<Rightarrow> Some (d1 @ g @ f, r3))))
          else None)"


declare comma_groups.simps [simp del]

text \<open>
  \<^verbatim>\<open>re.findall(pattern, text)\<close> for a pattern with one group: scan from the left, try
  the pattern at each position, collect group 1 of every match and go on after the match.
\<close>

function findall_percentage :: "pystr \<Rightarrow> pystr list" where
  "findall_percentage s =
     (case s of
        [] \<Rightarrow> []
      | c # cs \<Rightarrow>
          (case match_percentage s of
             None \<Rightarrow> findall_percentage cs
           | Some (g, rest) \<Rightarrow> g # findall_percentage rest))"
  by pat_completeness auto
termination
proof (relation "measure length")
  show "wf (measure length)" by simp
next
  fix s :: pystr and c cs
  assume "s = c # cs"
  then show "(cs, s) \<in> measure length" by simp
next
  fix s :: pystr and c cs x g rest
  assume m: "match_percentage s = Some x" and x: "(g, rest) = x"
  have dp: "length r < length t" if "digits_plus t = Some (d, r)" for t d r
  proof -
    from that have "takeWhile is_digit t \<noteq> []" and "r = dropWhile is_digit t"
      by (auto simp: digits_plus_def split: if_splits)
    moreover have "length (takeWhile is_digit t) + length (dropWhile is_digit t) = length t"
      by (metis length_append takeWhile_dropWhile_id)
    ultimately show ?thesis by (cases "takeWhile is_digit t") auto
  qed
  from m x have "length rest < length s"
    by (auto simp: match_percentage_def split: option.splits list.splits if_splits dest!: dp)
  then show "(rest, s) \<in> measure length" by simp
qed

declare findall_percentage.simps [simp del]

function findall_cost :: "pystr \<Rightarrow> pystr list" where
  "findall_cost s =
     (case s of
        [] \<Rightarrow> []
      | c # cs \<Rightarrow>
          (case match_cost s of
             None \<Rightarrow> findall_cost cs
           | Some (g, rest) \<Rightarrow> g # findall_cost rest))"
  by pat_completeness auto
termination
proof (relation "measure length")
  show "wf (measure length)" by simp
next
  fix s :: pystr and c cs
  assume "s = c # cs"
  then show "(cs, s) \<in> measure length" by simp
next
  fix s :: pystr and c cs x g rest
  assume m: "match_cost s = Some x" and x: "(g, rest) = x"
  have dw: "length (dropWhile is_digit t) \<le> length t" for t
    by (rule length_dropWhile_le)
  have cg: "length (snd (comma_groups t)) \<le> length t" for t
  proof (induction t rule: comma_groups.induct)
    case (1 t)
    show ?case
    proof (cases t)
      case Nil
      then show ?thesis by (simp add: comma_groups.simps)
    next
      case (Cons a r)
      show ?thesis
      proof (cases "a = comma \<and> takeWhile is_digit r \<noteq> []")
        case True
        with Cons "1.IH" have "length (snd (comma_groups (dropWhile is_digit r)))
            \<le> length (dropWhile is_digit r)"
          by simp
        moreover from True
        have "snd (comma_groups (a # r)) = snd (comma_groups (dropWhile is_digit r))"
          by (subst comma_groups.simps) (simp split: prod.splits)
        ultimately show ?thesis using dw [of r] Cons by simp
      next
        case False
        then have "comma_groups (a # r) = ([], a # r)"
          by (subst comma_groups.simps) auto
        with Cons show ?thesis by simp
      qed
    qed
  qed
  have dc: "length (snd (decimal_part t)) \<le> length t" for t
    using dw by (auto simp: decimal_part_def le_SucI split: list.splits)
  from m x obtain a r d1 r1 where s: "s = a # r" and d: "digits_plus r = Some (d1, r1)"
    and rest: "rest = snd (decimal_part (snd (comma_groups r1)))"
    by (auto simp: match_cost_def split: list.splits if_splits option.splits prod.splits)
  from d have "r1 = dropWhile is_digit r"
    by (auto simp: digits_plus_def split: if_splits)
  with dw [of r] have "length r1 \<le> length r" by simp
  with rest dc [of "snd (comma_groups r1)"] cg [of r1] s have "length rest < length s"
    by simp
  then show "(rest, s) \<in> measure length" by simp
qed

declare findall_cost.simps [simp del]

section \<open>The extractors\<close>

text \<open>
  \<^verbatim>\<open>percentages[0] if percentages else None\<close>: the first match as a string, or
  \<^verbatim>\<open>None\<close>.
\<close>

definition extract_percentage :: "pystr \<Rightarrow> pyval" where
  "extract_percentage text =
     (case findall_percentage text of
        [] \<Rightarrow> PyNone
      | p # _ \<Rightarrow> PyStr p)"

text \<open>\<^verbatim>\<open>s.replace(',', '')\<close>\<close>

definition replace_comma :: "pystr \<Rightarrow> pystr" where
  "replace_comma s = filter (\<lambda>c. c \<noteq> comma) s"

definition extract_cost :: "pystr \<Rightarrow> pyval" where
  "extract_cost text =
     (case findall_cost text of
        [] \<Rightarrow> PyNone
      | c # _ \<Rightarrow> PyStr (replace_comma c))"


section \<open>extract\_relevant\_data\<close>

text \<open>\<^verbatim>\<open>if cond: data_point[key] = value\<close>\<close>

definition set_if :: "bool \<Rightarrow> string \<Rightarrow> pyval \<Rightarrow> data_point \<Rightarrow> data_point" where
  "set_if cond key v data_point = (if cond then AList.update key v data_point else data_point)"

text \<open>
  The project-specific extraction: the \<^verbatim>\<open>if/elif\<close> chain on \<^verbatim>\<open>project_type\<close>, each
  branch with its rules in the order of the source. The assignment of a rule stores
  what the extractor returns, also when that is \<^verbatim>\<open>None\<close>.
\<close>

definition project_specific :: "pystr \<Rightarrow> pystr \<Rightarrow> data_point \<Rightarrow> data_point" where
  "project_specific project_type abstract data_point =
     (if project_type = lit ''hpv_vaccine'' then
        set_if (str_in (lit ''coverage'') abstract \<or> str_in (lit ''uptake'') abstract)
          ''coverage'' (extract_percentage abstract)
        (set_if (str_in (lit ''cost'') abstract \<or> str_in (lit ''price'') abstract)
          ''cost'' (extract_cost abstract)
        (set_if (str_in (lit ''efficacy'') abstract \<or> str_in (lit ''effectiveness'') abstract)
          ''efficacy'' (extract_percentage abstract) data_point))
      else if project_type = lit ''ncd_screening'' then
        set_if (str_in (lit ''cost'') abstract) ''cost'' (extract_cost abstract)
        (set_if (str_in (lit ''specificity'') abstract)
          ''specificity'' (extract_percentage abstract)
        (set_if (str_in (lit ''sensitivity'') abstract)
          ''sensitivity'' (extract_percentage abstract) data_point))
      else if project_type = lit ''dialysis'' then
        set_if (str_in (lit ''cost'') abstract) ''cost_per_session'' (extract_cost abstract)
        (set_if (str_in (lit ''survival'') abstract)
          ''survival_rate'' (extract_percentage abstract) data_point)
      else if project_type = lit ''mdrtb'' then
        set_if (str_in (lit ''cost'') abstract) ''cost'' (extract_cost abstract)
        (set_if (str_in (lit ''success'') abstract \<or> str_in (lit ''cure'') abstract)
          ''success_rate'' (extract_percentage abstract) data_point)
      else if project_type = lit ''ai_tb_cxr'' then
        set_if (str_in (lit ''specificity'') abstract)
          ''specificity'' (extract_percentage abstract)
        (set_if (str_in (lit ''sensitivity'') abstract)
          ''sensitivity'' (extract_percentage abstract)
        (set_if (str_in (lit ''accuracy'') abstract)
          ''accuracy'' (extract_percentage abstract) data_point))
      else data_point)"

text \<open>The four baseline fields, copied from the article as \<^verbatim>\<open>article.get\<close> returns them.\<close>

definition baseline :: "article \<Rightarrow> data_point" where
  "baseline article =
     [(''pmid'', dict_get article ''pmid''),
      (''title'', dict_get article ''title''),
      (''year'', dict_get article ''year''),
      (''doi'', dict_get article ''doi'')]"

text \<open>
  The loop over the articles, with \<^verbatim>\<open>extracted_data\<close> as the accumulator. An entry
  that is \<^verbatim>\<open>None\<close> is skipped; \<^verbatim>\<open>.lower()\<close> on a truthy value that is not a string
  raises, which ends the loop with the error.
\<close>

fun extract_loop :: "pystr \<Rightarrow> article option list \<Rightarrow> data_point list \<Rightarrow> error + data_point list"
  where
  "extract_loop project_type [] extracted_data = Inr extracted_data"
| "extract_loop project_type (None # articles) extracted_data =
     extract_loop project_type articles extracted_data"
| "extract_loop project_type (Some article # articles) extracted_data =
     (case py_lower (py_or (dict_get article ''abstract'') (PyStr [])) of
        Inl e \<Rightarrow> Inl e
      | Inr abstract \<Rightarrow>
          (case py_lower (py_or (dict_get article ''title'') (PyStr [])) of
             Inl e \<Rightarrow> Inl e
           | Inr title \<Rightarrow>
               (let data_point = project_specific project_type abstract (baseline article)
                in if length data_point > 4
                   then extract_loop project_type articles (extracted_data @ [data_point])
                   else extract_loop project_type articles extracted_data)))"

definition extract_relevant_data :: "article option list \<Rightarrow> pystr \<Rightarrow> error + data_point list"
  where
  "extract_relevant_data articles project_type = extract_loop project_type articles []"


section \<open>Well-typed batches and the data point of one article\<close>

text \<open>
  A batch is well typed when the \<^verbatim>\<open>abstract\<close> and \<^verbatim>\<open>title\<close> of every article are
  strings, \<^verbatim>\<open>None\<close> or missing.
\<close>

fun str_or_none :: "pyval \<Rightarrow> bool" where
  "str_or_none PyNone = True"
| "str_or_none (PyStr s) = True"
| "str_or_none (PyInt i) = False"

definition well_typed :: "article \<Rightarrow> bool" where
  "well_typed article =
     (str_or_none (dict_get article ''abstract'') \<and> str_or_none (dict_get article ''title''))"

fun well_typed_batch :: "article option list \<Rightarrow> bool" where
  "well_typed_batch [] = True"
| "well_typed_batch (None # articles) = well_typed_batch articles"
| "well_typed_batch (Some article # articles) = (well_typed article \<and> well_typed_batch articles)"

text \<open>The entries of the batch that are articles, in order.\<close>

fun records :: "article option list \<Rightarrow> article list" where
  "records [] = []"
| "records (None # articles) = records articles"
| "records (Some article # articles) = article # records articles"

text \<open>
  The text the rules are matched against, \<^verbatim>\<open>(article.get("abstract") or "").lower()\<close>,
  for an abstract that is a string or \<^verbatim>\<open>None\<close>, and the data point the loop body builds
  from it.
\<close>

definition normalized_abstract :: "article \<Rightarrow> pystr" where
  "normalized_abstract article =
     (case dict_get article ''abstract'' of PyStr s \<Rightarrow> lower s | _ \<Rightarrow> [])"

definition data_point_of :: "pystr \<Rightarrow> article \<Rightarrow> data_point" where
  "data_point_of project_type article =
     project_specific project_type (normalized_abstract article) (baseline article)"

text \<open>\<^verbatim>\<open>len(data_point) > 4\<close>\<close>

definition retained :: "data_point \<Rightarrow> bool" where
  "retained data_point = (length data_point > 4)"

section \<open>The rules as a table\<close>

text \<open>
  The branches of \<^const>\<open>project_specific\<close> read as a table: for each project type the
  rules in the order of the source, each with its trigger keywords, the key it assigns
  and the extractor it calls. \<open>project_specific_rules\<close> below shows that applying the
  table is what the chain of conditionals does.
\<close>


datatype kind = Percentage | Currency

fun extract_by :: "kind \<Rightarrow> pystr \<Rightarrow> pyval" where
  "extract_by Percentage text = extract_percentage text"
| "extract_by Currency text = extract_cost text"

type_synonym metric_rule = "string list \<times> string \<times> kind"

definition rules :: "pystr \<Rightarrow> metric_rule list" where
  "rules project_type =
     (if project_type = lit ''hpv_vaccine'' then
        [([''efficacy'', ''effectiveness''], ''efficacy'', Percentage),
         ([''cost'', ''price''], ''cost'', Currency),
         ([''coverage'', ''uptake''], ''coverage'', Percentage)]
      else if project_type = lit ''ncd_screening'' then
        [([''sensitivity''], ''sensitivity'', Percentage),
         ([''specificity''], ''specificity'', Percentage),
         ([''cost''], ''cost'', Currency)]
      else if project_type = lit ''dialysis'' then
        [([''survival''], ''survival_rate'', Percentage),
         ([''cost''], ''cost_per_session'', Currency)]
      else if project_type = lit ''mdrtb'' then
        [([''success'', ''cure''], ''success_rate'', Percentage),
         ([''cost''], ''cost'', Currency)]
      else if project_type = lit ''ai_tb_cxr'' then
        [([''accuracy''], ''accuracy'', Percentage),
         ([''sensitivity''], ''sensitivity'', Percentage),
         ([''specificity''], ''specificity'', Percentage)]
      else [])"

text \<open>A rule fires when one of its triggers occurs in the lower-cased abstract.\<close>

definition fires :: "pystr \<Rightarrow> metric_rule \<Rightarrow> bool" where
  "fires abstract r = list_ex (\<lambda>t. str_in (lit t) abstract) (fst r)"

definition field_of :: "pystr \<Rightarrow> metric_rule \<Rightarrow> string \<times> pyval" where
  "field_of abstract r = (fst (snd r), extract_by (snd (snd r)) abstract)"

definition apply_rule :: "pystr \<Rightarrow> data_point \<Rightarrow> metric_rule \<Rightarrow> data_point" where
  "apply_rule abstract data_point r =
     set_if (fires abstract r) (fst (snd r)) (extract_by (snd (snd r)) abstract) data_point"


section \<open>The percentage pattern, as the specification words it\<close>

text \<open>
  A non-empty run of digits; an unsigned decimal number (digits, optionally a dot and
  more digits); and such a number immediately followed by a percent sign occurring in
  the text as a substring that starts at position \<open>i\<close>.
\<close>

definition digits1 :: "pystr \<Rightarrow> bool" where
  "digits1 d = (d \<noteq> [] \<and> list_all is_digit d)"

definition unsigned_decimal :: "pystr \<Rightarrow> bool" where
  "unsigned_decimal g =
     (digits1 g \<or> (\<exists>d1 d2. g = d1 @ [dot] @ d2 \<and> digits1 d1 \<and> digits1 d2))"

definition percentage_at :: "pystr \<Rightarrow> nat \<Rightarrow> pystr \<Rightarrow> bool" where
  "percentage_at text i g =
     (unsigned_decimal g \<and> (\<exists>pre post. text = pre @ g @ [percent] @ post \<and> length pre = i))"

text \<open>The keys of the baseline fields.\<close>

definition baseline_keys :: "string list" where
  "baseline_keys = [''pmid'', ''title'', ''year'', ''doi'']"

text \<open>
  An article as \<^verbatim>\<open>fetch_abstracts\<close> builds it: every field is a string. The examples
  below are such articles.
\<close>

definition fetched :: "string \<Rightarrow> string \<Rightarrow> string \<Rightarrow> article" where
  "fetched pmid title abstract =
     map_of
       [(''pmid'', PyStr (lit pmid)), (''title'', PyStr (lit title)),
        (''abstract'', PyStr (lit abstract)), (''year'', PyStr (lit ''2021'')),
        (''journal'', PyStr (lit ''Vaccine'')), (''doi'', PyStr []),
        (''authors'', PyStr [])]"

text \<open>An article without text: the title and the abstract are empty or \<^verbatim>\<open>None\<close>.\<close>

definition empty_text :: "article \<Rightarrow> bool" where
  "empty_text article =
     (dict_get article ''abstract'' \<in> {PyNone, PyStr []} \<and>
      dict_get article ''title'' \<in> {PyNone, PyStr []})"

section \<open>The loop\<close>

lemma lower_Nil: "lower [] = []"
  by (simp add: lower_def)

lemma py_lower_abstract:
  "str_or_none (dict_get article ''abstract'') \<Longrightarrow>
     py_lower (py_or (dict_get article ''abstract'') (PyStr [])) = Inr (normalized_abstract article)"
  by (cases "dict_get article ''abstract''")
    (auto simp: py_or_def normalized_abstract_def lower_Nil)

lemma py_lower_title:
  "str_or_none (dict_get article ''title'') \<Longrightarrow>
     \<exists>t. py_lower (py_or (dict_get article ''title'') (PyStr [])) = Inr t"
  by (cases "dict_get article ''title''") (auto simp: py_or_def)

lemma extract_loop_well_typed:
  "well_typed_batch articles \<Longrightarrow>
     extract_loop project_type articles acc =
       Inr (acc @ filter retained (map (data_point_of project_type) (records articles)))"
proof (induction articles arbitrary: acc rule: records.induct)
  case 1
  then show ?case by simp
next
  case (2 articles)
  then show ?case by simp
next
  case (3 article articles)
  from "3.prems" have wt: "well_typed article" and rest: "well_typed_batch articles"
    by simp_all
  from wt obtain t where
    a: "py_lower (py_or (dict_get article ''abstract'') (PyStr [])) = Inr (normalized_abstract article)"
    and t: "py_lower (py_or (dict_get article ''title'') (PyStr [])) = Inr t"
    using py_lower_abstract py_lower_title unfolding well_typed_def by blast
  show ?case
    by (simp add: a t "3.IH" [OF rest] data_point_of_def retained_def Let_def)
qed

lemma extract_relevant_data_well_typed:
  "well_typed_batch articles \<Longrightarrow>
     extract_relevant_data articles project_type =
       Inr (filter retained (map (data_point_of project_type) (records articles)))"
  by (simp add: extract_relevant_data_def extract_loop_well_typed)

lemma set_records: "set (records articles) = {a. Some a \<in> set articles}"
  by (induction articles rule: records.induct) auto


section \<open>The rules\<close>

lemma project_specific_rules:
  "project_specific project_type abstract data_point =
     foldl (apply_rule abstract) data_point (rules project_type)"
  by (simp add: project_specific_def rules_def apply_rule_def fires_def)

lemma update_fresh: "k \<notin> fst ` set al \<Longrightarrow> AList.update k v al = al @ [(k, v)]"
  by (induction al) auto

lemma apply_rules_append:
  "distinct (map (\<lambda>r. fst (snd r)) rs) \<Longrightarrow>
   (\<forall>r \<in> set rs. fst (snd r) \<notin> fst ` set dp) \<Longrightarrow>
   foldl (apply_rule abstract) dp rs = dp @ map (field_of abstract) (filter (fires abstract) rs)"
proof (induction rs arbitrary: dp)
  case Nil
  then show ?case by simp
next
  case (Cons r rs)
  let ?dp = "apply_rule abstract dp r"
  have step: "?dp = dp @ map (field_of abstract) (filter (fires abstract) [r])"
    using Cons.prems(2) by (simp add: apply_rule_def set_if_def update_fresh field_of_def)
  have "distinct (map (\<lambda>r. fst (snd r)) rs)"
    using Cons.prems(1) by simp
  moreover have "\<forall>r' \<in> set rs. fst (snd r') \<notin> fst ` set ?dp"
    using Cons.prems by (auto simp: step field_of_def image_iff)
  ultimately have "foldl (apply_rule abstract) ?dp rs =
      ?dp @ map (field_of abstract) (filter (fires abstract) rs)"
    by (rule Cons.IH)
  then show ?case by (simp add: step)
qed

lemma rules_distinct: "distinct (map (\<lambda>r. fst (snd r)) (rules project_type))"
  by (simp add: rules_def)

lemma rules_not_baseline:
  "r \<in> set (rules project_type) \<Longrightarrow> fst (snd r) \<notin> fst ` set (baseline article)"
  by (auto simp: rules_def baseline_def split: if_splits)

lemma data_point_of_eq:
  "data_point_of project_type article =
     baseline article @
       map (field_of (normalized_abstract article))
         (filter (fires (normalized_abstract article)) (rules project_type))"
  unfolding data_point_of_def project_specific_rules
  by (rule apply_rules_append) (auto simp: rules_distinct dest: rules_not_baseline)

section \<open>The percentage pattern finds the leftmost match\<close>

lemma not_digit_percent: "\<not> is_digit percent"
  by (simp add: is_digit_def nd_zeros_def percent_def)

lemma not_digit_dot: "\<not> is_digit dot"
  by (simp add: is_digit_def nd_zeros_def dot_def)

lemma dot_neq_percent: "dot \<noteq> percent"
  by (simp add: dot_def percent_def)

lemma digits_plus_Some:
  "digits_plus s = Some (d, r) \<longleftrightarrow> digits1 d \<and> s = d @ r \<and> (r = [] \<or> \<not> is_digit (hd r))"
proof
  assume "digits_plus s = Some (d, r)"
  then have d: "d = takeWhile is_digit s" and r: "r = dropWhile is_digit s" and ne: "d \<noteq> []"
    by (auto simp: digits_plus_def split: if_splits)
  have "list_all is_digit d"
    unfolding d list_all_iff by (auto dest: set_takeWhileD)
  moreover have "s = d @ r" by (simp add: d r)
  moreover have "r = [] \<or> \<not> is_digit (hd r)"
    unfolding r by (metis hd_dropWhile)
  ultimately show "digits1 d \<and> s = d @ r \<and> (r = [] \<or> \<not> is_digit (hd r))"
    using ne by (simp add: digits1_def)
next
  assume a: "digits1 d \<and> s = d @ r \<and> (r = [] \<or> \<not> is_digit (hd r))"
  then have all: "\<forall>x \<in> set d. is_digit x" and ne: "d \<noteq> []" and s: "s = d @ r"
    by (auto simp: digits1_def list_all_iff)
  from a have tw: "takeWhile is_digit r = []"
    by (cases r) auto
  from a have dw: "dropWhile is_digit r = r"
    by (cases r) auto
  have "takeWhile is_digit s = d"
    using all tw by (simp add: s takeWhile_append2)
  moreover have "dropWhile is_digit s = r"
    using all dw by (simp add: s dropWhile_append2)
  ultimately show "digits_plus s = Some (d, r)"
    using ne by (simp add: digits_plus_def)
qed

lemma match_percentage_sound:
  assumes "match_percentage s = Some (g, r)"
  shows "unsigned_decimal g \<and> s = g @ [percent] @ r"
proof -
  from assms obtain d1 r1 where d1: "digits_plus s = Some (d1, r1)"
    by (auto simp: match_percentage_def split: option.splits)
  then have dd1: "digits1 d1" and s: "s = d1 @ r1"
    by (simp_all add: digits_plus_Some)
  from assms d1 obtain c r2 where r1: "r1 = c # r2"
    by (auto simp: match_percentage_def split: list.splits)
  show ?thesis
  proof (cases "c = percent")
    case True
    with assms d1 r1 have "g = d1" "r = r2"
      by (auto simp: match_percentage_def)
    with dd1 s r1 True show ?thesis by (simp add: unsigned_decimal_def)
  next
    case False
    with assms d1 r1 have c: "c = dot"
      by (auto simp: match_percentage_def split: if_splits)
    from assms d1 r1 False c obtain d2 r3 where d2: "digits_plus r2 = Some (d2, r3)"
      by (auto simp: match_percentage_def split: option.splits)
    then have dd2: "digits1 d2" and r2: "r2 = d2 @ r3"
      by (simp_all add: digits_plus_Some)
    from assms d1 r1 False c d2 have "r3 = percent # r" "g = d1 @ [dot] @ d2"
      by (auto simp: match_percentage_def split: list.splits if_splits)
    with dd1 dd2 s r1 c r2 show ?thesis
      by (auto simp: unsigned_decimal_def)
  qed
qed

lemma match_percentage_complete:
  assumes "unsigned_decimal g"
  shows "match_percentage (g @ [percent] @ r) = Some (g, r)"
proof -
  from assms consider "digits1 g"
    | d1 d2 where "g = d1 @ [dot] @ d2" "digits1 d1" "digits1 d2"
    by (auto simp: unsigned_decimal_def)
  then show ?thesis
  proof cases
    case 1
    then have "digits_plus (g @ [percent] @ r) = Some (g, percent # r)"
      by (simp add: digits_plus_Some not_digit_percent)
    then show ?thesis by (simp add: match_percentage_def)
  next
    case 2
    from 2(2) have a: "digits_plus (d1 @ dot # d2 @ percent # r) = Some (d1, dot # d2 @ percent # r)"
      by (simp add: digits_plus_Some not_digit_dot)
    from 2(3) have b: "digits_plus (d2 @ percent # r) = Some (d2, percent # r)"
      by (simp add: digits_plus_Some not_digit_percent)
    show ?thesis
      by (simp add: match_percentage_def 2(1) a b dot_neq_percent)
  qed
qed

lemma match_percentage_iff:
  "match_percentage s = Some (g, r) \<longleftrightarrow> unsigned_decimal g \<and> s = g @ [percent] @ r"
  using match_percentage_sound match_percentage_complete by blast

lemma percentage_at_iff:
  "percentage_at text i g \<longleftrightarrow> (\<exists>r. match_percentage (drop i text) = Some (g, r))"
proof
  assume "percentage_at text i g"
  then obtain pre post where "unsigned_decimal g" "text = pre @ g @ [percent] @ post" "length pre = i"
    by (auto simp: percentage_at_def)
  then have "match_percentage (drop i text) = Some (g, post)"
    by (simp add: match_percentage_iff)
  then show "\<exists>r. match_percentage (drop i text) = Some (g, r)" ..
next
  assume "\<exists>r. match_percentage (drop i text) = Some (g, r)"
  then obtain r where ud: "unsigned_decimal g" and d: "drop i text = g @ [percent] @ r"
    by (auto simp: match_percentage_iff)
  then have "i < length text" by (cases "i < length text") auto
  then have "length (take i text) = i" by simp
  moreover have "text = take i text @ g @ [percent] @ r"
    using d by (metis append_take_drop_id)
  ultimately show "percentage_at text i g"
    using ud unfolding percentage_at_def by blast
qed

lemma no_match_percentage:
  "match_percentage s = None \<longleftrightarrow> (\<forall>g r. match_percentage s \<noteq> Some (g, r))"
  by (cases "match_percentage s") auto

lemma match_percentage_Nil: "match_percentage [] = None"
  by (simp add: match_percentage_def digits_plus_def)

lemma findall_percentage_Nil: "findall_percentage [] = []"
  by (simp add: findall_percentage.simps)

lemma findall_percentage_Cons:
  "findall_percentage (c # cs) =
     (case match_percentage (c # cs) of
        None \<Rightarrow> findall_percentage cs
      | Some (g, rest) \<Rightarrow> g # findall_percentage rest)"
  by (subst findall_percentage.simps) simp

lemma findall_percentage_empty:
  "findall_percentage s = [] \<longleftrightarrow> (\<forall>i. match_percentage (drop i s) = None)"
proof (induction s)
  case Nil
  then show ?case by (simp add: findall_percentage_Nil match_percentage_Nil)
next
  case (Cons c cs)
  show ?case
  proof (cases "match_percentage (c # cs)")
    case None
    have "(\<forall>i. match_percentage (drop i (c # cs)) = None) \<longleftrightarrow>
          (\<forall>i. match_percentage (drop i cs) = None)"
    proof
      assume a: "\<forall>i. match_percentage (drop i (c # cs)) = None"
      show "\<forall>i. match_percentage (drop i cs) = None"
      proof
        fix i from a have "match_percentage (drop (Suc i) (c # cs)) = None" by blast
        then show "match_percentage (drop i cs) = None" by simp
      qed
    next
      assume a: "\<forall>i. match_percentage (drop i cs) = None"
      show "\<forall>i. match_percentage (drop i (c # cs)) = None"
      proof
        fix i show "match_percentage (drop i (c # cs)) = None"
          using a None by (cases i) auto
      qed
    qed
    with None Cons.IH show ?thesis by (simp add: findall_percentage_Cons)
  next
    case (Some x)
    have "\<not> (\<forall>i. match_percentage (drop i (c # cs)) = None)"
    proof
      assume "\<forall>i. match_percentage (drop i (c # cs)) = None"
      then have "match_percentage (drop 0 (c # cs)) = None" by (rule spec)
      with Some show False by simp
    qed
    with Some show ?thesis by (auto simp: findall_percentage_Cons split: prod.splits)
  qed
qed

lemma findall_percentage_first:
  "findall_percentage s = g # gs \<Longrightarrow>
     \<exists>i. (\<exists>r. match_percentage (drop i s) = Some (g, r)) \<and>
         (\<forall>j<i. match_percentage (drop j s) = None)"
proof (induction s)
  case Nil
  then show ?case by (simp add: findall_percentage_Nil)
next
  case (Cons c cs)
  show ?case
  proof (cases "match_percentage (c # cs)")
    case None
    with Cons.prems have "findall_percentage cs = g # gs"
      by (simp add: findall_percentage_Cons)
    with Cons.IH obtain i r where i: "match_percentage (drop i cs) = Some (g, r)"
      and before: "\<forall>j<i. match_percentage (drop j cs) = None"
      by blast
    have "\<forall>j<Suc i. match_percentage (drop j (c # cs)) = None"
    proof (intro allI impI)
      fix j assume "j < Suc i"
      then show "match_percentage (drop j (c # cs)) = None"
        using None before by (cases j) auto
    qed
    moreover have "match_percentage (drop (Suc i) (c # cs)) = Some (g, r)"
      using i by simp
    ultimately show ?thesis by blast
  next
    case (Some x)
    with Cons.prems obtain r where "match_percentage (c # cs) = Some (g, r)"
      by (cases x) (auto simp: findall_percentage_Cons)
    then have "match_percentage (drop 0 (c # cs)) = Some (g, r)" by simp
    moreover have "\<forall>j<(0::nat). match_percentage (drop j (c # cs)) = None" by simp
    ultimately show ?thesis by blast
  qed
qed

lemma extract_percentage_PyStr:
  "extract_percentage text = PyStr g \<longleftrightarrow>
     (\<exists>i. percentage_at text i g \<and> (\<forall>j<i. \<forall>g'. \<not> percentage_at text j g'))"
proof
  assume "extract_percentage text = PyStr g"
  then obtain gs where "findall_percentage text = g # gs"
    by (auto simp: extract_percentage_def split: list.splits)
  from findall_percentage_first [OF this]
  show "\<exists>i. percentage_at text i g \<and> (\<forall>j<i. \<forall>g'. \<not> percentage_at text j g')"
    by (auto simp: percentage_at_iff)
next
  assume "\<exists>i. percentage_at text i g \<and> (\<forall>j<i. \<forall>g'. \<not> percentage_at text j g')"
  then obtain i r where i: "match_percentage (drop i text) = Some (g, r)"
    and before: "\<forall>j<i. match_percentage (drop j text) = None"
    by (auto simp: percentage_at_iff no_match_percentage)
  from i have "findall_percentage text \<noteq> []"
    by (auto simp: findall_percentage_empty)
  then obtain g0 gs where f: "findall_percentage text = g0 # gs"
    by (cases "findall_percentage text") auto
  from findall_percentage_first [OF this] obtain i0 r0
    where i0: "match_percentage (drop i0 text) = Some (g0, r0)"
      and before0: "\<forall>j<i0. match_percentage (drop j text) = None"
    by blast
  have "i0 = i"
  proof (rule ccontr)
    assume "i0 \<noteq> i"
    then consider "i0 < i" | "i < i0" by linarith
    then show False
    proof cases
      case 1 with before i0 show False by simp
    next
      case 2 with before0 i show False by simp
    qed
  qed
  with i i0 have "g0 = g" by simp
  with f show "extract_percentage text = PyStr g"
    by (simp add: extract_percentage_def)
qed

lemma extract_percentage_PyNone:
  "extract_percentage text = PyNone \<longleftrightarrow> (\<forall>i g. \<not> percentage_at text i g)"
proof -
  have "extract_percentage text = PyNone \<longleftrightarrow> findall_percentage text = []"
    by (auto simp: extract_percentage_def split: list.splits)
  also have "\<dots> \<longleftrightarrow> (\<forall>i. match_percentage (drop i text) = None)"
    by (rule findall_percentage_empty)
  also have "\<dots> \<longleftrightarrow> (\<forall>i g. \<not> percentage_at text i g)"
    by (auto simp: percentage_at_iff no_match_percentage)
  finally show ?thesis .
qed

section \<open>The shape of a data point\<close>

lemma baseline_keys_eq: "map fst (baseline article) = baseline_keys"
  by (simp add: baseline_def baseline_keys_def)

lemma length_baseline: "length (baseline article) = 4"
  by (simp add: baseline_def)

lemma fst_field_of: "fst (field_of abstract r) = fst (snd r)"
  by (simp add: field_of_def)

lemma data_point_keys:
  "map fst (data_point_of project_type article) =
     baseline_keys @
       map (\<lambda>r. fst (snd r)) (filter (fires (normalized_abstract article)) (rules project_type))"
  by (simp add: data_point_of_eq baseline_keys_eq fst_field_of comp_def)

lemma data_point_distinct: "distinct (map fst (data_point_of project_type article))"
proof -
  have "distinct (map (\<lambda>r. fst (snd r))
          (filter (fires (normalized_abstract article)) (rules project_type)))"
    by (rule distinct_map_filter) (rule rules_distinct)
  moreover have "distinct baseline_keys"
    by (simp add: baseline_keys_def)
  moreover have "set baseline_keys \<inter>
      set (map (\<lambda>r. fst (snd r))
            (filter (fires (normalized_abstract article)) (rules project_type))) = {}"
  proof -
    have "k \<notin> set baseline_keys" if "r \<in> set (rules project_type)" "k = fst (snd r)" for k r
      using rules_not_baseline [OF that(1), of article] that(2)
      by (simp add: baseline_keys_eq [of article, symmetric])
    then show ?thesis by auto
  qed
  ultimately show ?thesis
    by (simp add: data_point_keys)
qed

lemma length_data_point:
  "length (data_point_of project_type article) =
     4 + length (filter (fires (normalized_abstract article)) (rules project_type))"
  by (simp add: data_point_of_eq length_baseline)

lemma retained_iff_fires:
  "retained (data_point_of project_type article) \<longleftrightarrow>
     (\<exists>r \<in> set (rules project_type). fires (normalized_abstract article) r)"
  by (auto simp: retained_def length_data_point filter_empty_conv)

lemma data_point_lookup:
  assumes "r \<in> set (rules project_type)" and "fires (normalized_abstract article) r"
  shows "map_of (data_point_of project_type article) (fst (snd r)) =
           Some (extract_by (snd (snd r)) (normalized_abstract article))"
proof -
  from assms have "field_of (normalized_abstract article) r \<in> set (data_point_of project_type article)"
    by (simp add: data_point_of_eq)
  then have "(fst (snd r), extract_by (snd (snd r)) (normalized_abstract article))
      \<in> set (data_point_of project_type article)"
    by (simp add: field_of_def)
  with data_point_distinct show ?thesis
    by (rule map_of_is_SomeI)
qed

lemma rules_unrecognized:
  "project_type \<notin> {lit ''hpv_vaccine'', lit ''ncd_screening'', lit ''dialysis'', lit ''mdrtb'',
       lit ''ai_tb_cxr''} \<Longrightarrow> rules project_type = []"
  by (simp add: rules_def)

section \<open>Evaluating the model on concrete texts\<close>

lemma lower_char_below_192:
  "c < 192 \<Longrightarrow> lower_char c = [if 65 \<le> c \<and> c \<le> 90 then c + 32 else c]"
  by (auto simp: lower_char_def to_lower_def lower_table_def)

lemma lower_char_226: "lower_char 226 = [226]"
  by (simp add: lower_char_def to_lower_def lower_table_def)

lemma lower_char_8377: "lower_char 8377 = [8377]"
  by (simp add: lower_char_def to_lower_def lower_table_def)

text \<open>
  Beyond Latin-1: the Kelvin sign \<^verbatim>\<open>U+212A\<close> becomes \<^verbatim>\<open>k\<close>, so that a text written
  with it holds the trigger \<^verbatim>\<open>uptake\<close> once lower-cased; a capital sigma at the end of
  a word becomes the final sigma.
\<close>

lemma lower_char_8490: "lower_char 8490 = [107]"
  by (simp add: lower_char_def to_lower_def lower_table_def)

lemma lower_kelvin_sign:
  "lower (lit ''Upta'' @ [8490] @ lit ''e was 70%'') = lit ''uptake was 70%''"
  by (simp add: lit_def lower_def lower_char_below_192 lower_char_8490)

lemma lower_final_sigma: "lower [927, 931] = [959, 962]"
  by (simp add: lower_def lower_char_def to_lower_def lower_table_def final_sigma_def
      next_is_cased_def is_case_ignorable_def is_cased_def in_ranges_def
      case_ignorable_ranges_def cased_ranges_def)

lemma is_digit_ascii: "c < 1632 \<Longrightarrow> is_digit c \<longleftrightarrow> 48 \<le> c \<and> c \<le> 57"
  by (auto simp: is_digit_def nd_zeros_def)

lemma findall_cost_Nil: "findall_cost [] = []"
  by (simp add: findall_cost.simps)

lemma findall_cost_Cons:
  "findall_cost (c # cs) =
     (case match_cost (c # cs) of
        None \<Rightarrow> findall_cost cs
      | Some (g, rest) \<Rightarrow> g # findall_cost rest)"
  by (subst findall_cost.simps) simp

lemma comma_groups_Nil: "comma_groups [] = ([], [])"
  by (simp add: comma_groups.simps)

lemma comma_groups_Cons:
  "comma_groups (c # r) =
     (if c = comma \<and> takeWhile is_digit r \<noteq> [] then
        (case comma_groups (dropWhile is_digit r) of
           (g, r') \<Rightarrow> ([comma] @ takeWhile is_digit r @ g, r'))
      else ([], c # r))"
  by (subst comma_groups.simps) simp

lemmas eval_simps = lit_def lower_def lower_char_below_192 lower_char_226 lower_char_8377
  is_digit_ascii digits_plus_def
  match_percentage_def findall_percentage_Nil findall_percentage_Cons
  findall_cost_Nil findall_cost_Cons comma_groups_Nil comma_groups_Cons decimal_part_def
  match_cost_def is_currency_symbol_def percent_def dot_def comma_def
  extract_percentage_def extract_cost_def replace_comma_def
  extract_relevant_data_def py_or_def dict_get_def fetched_def project_specific_def
  set_if_def baseline_def

lemma well_typed_fetched: "well_typed (fetched pmid title abstract)"
  by (simp add: well_typed_def fetched_def dict_get_def)


section \<open>Articles without text, and positions in the batch\<close>

lemma fires_Nil: "r \<in> set (rules project_type) \<Longrightarrow> \<not> fires [] r"
  by (auto simp: rules_def fires_def lit_def split: if_splits)

lemma empty_text_normalized: "empty_text article \<Longrightarrow> normalized_abstract article = []"
  by (auto simp: empty_text_def normalized_abstract_def lower_Nil)

lemma empty_text_well_typed: "empty_text article \<Longrightarrow> well_typed article"
  by (auto simp: empty_text_def well_typed_def)

lemma empty_text_not_retained:
  "empty_text article \<Longrightarrow> \<not> retained (data_point_of project_type article)"
  by (simp add: retained_iff_fires empty_text_normalized fires_Nil)

lemma records_append: "records (xs @ ys) = records xs @ records ys"
  by (induction xs rule: records.induct) auto

lemma filter_records_index:
  "filter P (map f (records xs)) =
     map (\<lambda>i. f (the (xs ! i)))
       (filter (\<lambda>i. xs ! i \<noteq> None \<and> P (f (the (xs ! i)))) [0..<length xs])"
proof (induction xs rule: rev_induct)
  case Nil
  then show ?case by simp
next
  case (snoc x xs)
  let ?Q = "\<lambda>ys i. ys ! i \<noteq> None \<and> P (f (the (ys ! i)))"
  have idx: "filter (?Q (xs @ [x])) [0..<length xs] = filter (?Q xs) [0..<length xs]"
    by (rule filter_cong) (auto simp: nth_append)
  have mp: "map (\<lambda>i. f (the ((xs @ [x]) ! i))) (filter (?Q xs) [0..<length xs]) =
            map (\<lambda>i. f (the (xs ! i))) (filter (?Q xs) [0..<length xs])"
    by (rule map_cong) (auto simp: nth_append)
  have last: "filter P (map f (records [x])) =
      map (\<lambda>i. f (the ((xs @ [x]) ! i))) (filter (?Q (xs @ [x])) [length xs])"
    by (cases x) auto
  have "filter P (map f (records (xs @ [x]))) =
      filter P (map f (records xs)) @ filter P (map f (records [x]))"
    by (simp add: records_append)
  also have "\<dots> = map (\<lambda>i. f (the ((xs @ [x]) ! i))) (filter (?Q (xs @ [x])) [0..<length xs])
        @ map (\<lambda>i. f (the ((xs @ [x]) ! i))) (filter (?Q (xs @ [x])) [length xs])"
    by (simp only: snoc.IH idx mp last)
  finally show ?case by simp
qed

lemma extract_single:
  "well_typed article \<Longrightarrow>
     extract_relevant_data [Some article] project_type =
       Inr (if retained (data_point_of project_type article)
            then [data_point_of project_type article] else [])"
  by (simp add: extract_relevant_data_well_typed)

lemma take_baseline: "take 4 (data_point_of project_type article) = baseline article"
  by (simp add: data_point_of_eq length_baseline)

lemma drop_baseline:
  "drop 4 (data_point_of project_type article) =
     map (field_of (normalized_abstract article))
       (filter (fires (normalized_abstract article)) (rules project_type))"
  by (simp add: data_point_of_eq length_baseline)

lemma data_point_key_set:
  "fst ` set (data_point_of project_type article) =
     set baseline_keys \<union>
       (\<lambda>r. fst (snd r)) ` {r \<in> set (rules project_type). fires (normalized_abstract article) r}"
proof -
  have "fst ` set (data_point_of project_type article) =
      set (map fst (data_point_of project_type article))"
    by simp
  also have "\<dots> = set baseline_keys \<union>
       (\<lambda>r. fst (snd r)) ` {r \<in> set (rules project_type). fires (normalized_abstract article) r}"
    unfolding data_point_keys by auto
  finally show ?thesis .
qed

lemma rules_hpv_vaccine:
  "rules (lit ''hpv_vaccine'') =
     [([''efficacy'', ''effectiveness''], ''efficacy'', Percentage),
      ([''cost'', ''price''], ''cost'', Currency),
      ([''coverage'', ''uptake''], ''coverage'', Percentage)]"
  by (simp add: rules_def)

lemma rules_ncd_screening:
  "rules (lit ''ncd_screening'') =
     [([''sensitivity''], ''sensitivity'', Percentage),
      ([''specificity''], ''specificity'', Percentage),
      ([''cost''], ''cost'', Currency)]"
  by (simp add: rules_def lit_def)

lemma normalized_abstract_cong:
  "dict_get a1 ''abstract'' = dict_get a2 ''abstract'' \<Longrightarrow>
     normalized_abstract a1 = normalized_abstract a2"
  by (simp add: normalized_abstract_def)

lemma extract_percentage_cases:
  "(\<exists>g. extract_percentage text = PyStr g) \<or> extract_percentage text = PyNone"
  by (simp add: extract_percentage_def split: list.splits)

section \<open>The claims\<close>

text \<open>
  C1, at an input where the code departs from it. The condition of the loop,
  \<^verbatim>\<open>len(data_point) > 4\<close>, counts the keys of the data point, and a rule that fires
  assigns its key also when its extractor returns \<^verbatim>\<open>None\<close>. The abstract
  \<^verbatim>\<open>Uptake was low and the price is unknown\<close> has no percentage and no amount: both
  extractors return \<^verbatim>\<open>None\<close> on it and no metric is found. Under \<^verbatim>\<open>hpv_vaccine\<close> the
  record is in the output all the same, with \<^verbatim>\<open>cost\<close> and \<^verbatim>\<open>coverage\<close> holding
  \<^verbatim>\<open>None\<close>, where the comment of the source on the condition reads
  \<^verbatim>\<open>Only add if we found some relevant data\<close>.
\<close>

theorem record_without_metric_is_retained:
  "extract_percentage (lower (lit ''Uptake was low and the price is unknown'')) = PyNone \<and>
   extract_cost (lower (lit ''Uptake was low and the price is unknown'')) = PyNone \<and>
   extract_relevant_data
     [Some (fetched ''1'' ''Survey'' ''Uptake was low and the price is unknown'')]
     (lit ''hpv_vaccine'') =
     Inr [[(''pmid'', PyStr (lit ''1'')), (''title'', PyStr (lit ''Survey'')),
           (''year'', PyStr (lit ''2021'')), (''doi'', PyStr []),
           (''cost'', PyNone), (''coverage'', PyNone)]]"
proof (intro conjI)
  show "extract_percentage (lower (lit ''Uptake was low and the price is unknown'')) = PyNone"
    by (simp add: eval_simps)
  show "extract_cost (lower (lit ''Uptake was low and the price is unknown'')) = PyNone"
    by (simp add: eval_simps)
  show "extract_relevant_data
     [Some (fetched ''1'' ''Survey'' ''Uptake was low and the price is unknown'')]
     (lit ''hpv_vaccine'') =
     Inr [[(''pmid'', PyStr (lit ''1'')), (''title'', PyStr (lit ''Survey'')),
           (''year'', PyStr (lit ''2021'')), (''doi'', PyStr []),
           (''cost'', PyNone), (''coverage'', PyNone)]]"
    by (simp add: eval_simps)
qed




text \<open>
  C3. \<^const>\<open>extract_percentage\<close> returns a string or \<^verbatim>\<open>None\<close>. It returns the string
  \<open>g\<close> exactly when \<open>g\<close> is an unsigned decimal number that stands in the text
  immediately before a percent sign, at the leftmost position of the whole text where
  such a number followed by a percent sign starts; the string is the number as it stands
  in the text. It returns \<^verbatim>\<open>None\<close> exactly when no position has one. An article whose
  abstract is \<^verbatim>\<open>efficacy was 85% in group A and 90% in group B\<close> gives under
  \<^verbatim>\<open>hpv_vaccine\<close> one data point whose \<^verbatim>\<open>efficacy\<close> is \<^verbatim>\<open>85\<close>.
\<close>

theorem percentage_is_leftmost_match:
  "(extract_percentage text = PyStr g \<longleftrightarrow>
      (\<exists>i. percentage_at text i g \<and> (\<forall>j<i. \<forall>g'. \<not> percentage_at text j g'))) \<and>
   (extract_percentage text = PyNone \<longleftrightarrow> (\<forall>i g'. \<not> percentage_at text i g')) \<and>
   ((\<exists>g'. extract_percentage text = PyStr g') \<or> extract_percentage text = PyNone) \<and>
   (well_typed article \<and>
    dict_get article ''abstract'' =
      PyStr (lit ''efficacy was 85% in group A and 90% in group B'') \<longrightarrow>
    extract_relevant_data [Some article] (lit ''hpv_vaccine'') =
      Inr [baseline article @ [(''efficacy'', PyStr (lit ''85''))]])"
proof (intro conjI impI)
  show "extract_percentage text = PyStr g \<longleftrightarrow>
      (\<exists>i. percentage_at text i g \<and> (\<forall>j<i. \<forall>g'. \<not> percentage_at text j g'))"
    by (rule extract_percentage_PyStr)
  show "extract_percentage text = PyNone \<longleftrightarrow> (\<forall>i g'. \<not> percentage_at text i g')"
    by (rule extract_percentage_PyNone)
  show "(\<exists>g'. extract_percentage text = PyStr g') \<or> extract_percentage text = PyNone"
    by (rule extract_percentage_cases)
next
  assume a: "well_typed article \<and>
    dict_get article ''abstract'' =
      PyStr (lit ''efficacy was 85% in group A and 90% in group B'')"
  then have na: "normalized_abstract article =
      lit ''efficacy was 85% in group a and 90% in group b''"
    by (simp add: normalized_abstract_def eval_simps)
  have ps: "project_specific (lit ''hpv_vaccine'')
      (lit ''efficacy was 85% in group a and 90% in group b'') [] =
      [(''efficacy'', PyStr (lit ''85''))]"
    by (simp add: eval_simps)
  have "data_point_of (lit ''hpv_vaccine'') article =
      baseline article @ project_specific (lit ''hpv_vaccine'') (normalized_abstract article) []"
    unfolding data_point_of_def project_specific_rules
    by (simp add: apply_rules_append rules_distinct rules_not_baseline)
  then have dp: "data_point_of (lit ''hpv_vaccine'') article =
      baseline article @ [(''efficacy'', PyStr (lit ''85''))]"
    by (simp only: na ps)
  then have "retained (data_point_of (lit ''hpv_vaccine'') article)"
    by (simp add: retained_def length_baseline)
  with a dp show "extract_relevant_data [Some article] (lit ''hpv_vaccine'') =
      Inr [baseline article @ [(''efficacy'', PyStr (lit ''85''))]]"
    by (simp add: extract_single)
qed

theorem percentage_is_leftmost_match_witness:
  "extract_percentage (lit ''in 12.5% of 500% (p=.04)'') = PyStr (lit ''12.5'') \<and>
   (\<exists>i. percentage_at (lit ''in 12.5% of 500% (p=.04)'') i (lit ''12.5'') \<and>
      \<not> percentage_at (lit ''in 12.5% of 500% (p=.04)'') 0 (lit ''500'')) \<and>
   well_typed (fetched ''10'' ''Trial'' ''efficacy was 85% in group A and 90% in group B'') \<and>
   extract_relevant_data
     [Some (fetched ''10'' ''Trial'' ''efficacy was 85% in group A and 90% in group B'')]
     (lit ''hpv_vaccine'') =
     Inr [[(''pmid'', PyStr (lit ''10'')), (''title'', PyStr (lit ''Trial'')),
           (''year'', PyStr (lit ''2021'')), (''doi'', PyStr []),
           (''efficacy'', PyStr (lit ''85''))]]"
proof -
  let ?t = "lit ''in 12.5% of 500% (p=.04)''"
  let ?a = "fetched ''10'' ''Trial'' ''efficacy was 85% in group A and 90% in group B''"
  have e: "extract_percentage ?t = PyStr (lit ''12.5'')"
    by (simp add: eval_simps)
  have wt: "well_typed ?a" by (rule well_typed_fetched)
  have ab: "dict_get ?a ''abstract'' =
      PyStr (lit ''efficacy was 85% in group A and 90% in group B'')"
    by (simp add: fetched_def dict_get_def)
  have bl: "baseline ?a @ [(''efficacy'', PyStr (lit ''85''))] =
      [(''pmid'', PyStr (lit ''10'')), (''title'', PyStr (lit ''Trial'')),
       (''year'', PyStr (lit ''2021'')), (''doi'', PyStr []),
       (''efficacy'', PyStr (lit ''85''))]"
    by (simp add: baseline_def fetched_def dict_get_def)
  note inst = percentage_is_leftmost_match [of ?t "lit ''12.5''" ?a]
  from inst e obtain i where i: "percentage_at ?t i (lit ''12.5'')"
    and least: "\<forall>j<i. \<forall>g'. \<not> percentage_at ?t j g'"
    by blast
  have "i \<noteq> 0"
  proof
    assume "i = 0"
    with i obtain post where "?t = lit ''12.5'' @ [percent] @ post"
      by (auto simp: percentage_at_def)
    then show False by (simp add: lit_def)
  qed
  with least have "\<not> percentage_at ?t 0 (lit ''500'')" by simp
  with i have ex: "\<exists>i. percentage_at ?t i (lit ''12.5'') \<and> \<not> percentage_at ?t 0 (lit ''500'')"
    by blast
  from inst wt ab have "extract_relevant_data [Some ?a] (lit ''hpv_vaccine'') =
      Inr [baseline ?a @ [(''efficacy'', PyStr (lit ''85''))]]"
    by blast
  with e ex wt show ?thesis by (simp only: bl simp_thms)
qed

text \<open>
  C4 at the input where the code departs from it. The character class of the cost
  pattern in the source file holds the dollar sign and the three code points \<^verbatim>\<open>U+00E2\<close>,
  \<^verbatim>\<open>U+201A\<close>, \<^verbatim>\<open>U+00B9\<close> (the bytes of the rupee sign read in a one-byte encoding), not
  the rupee sign \<^verbatim>\<open>U+20B9\<close> (code point 8377). An amount after a rupee sign is not
  extracted: the abstract \<^verbatim>\<open>Cost\<close> \<^verbatim>\<open>U+20B9\<close>\<^verbatim>\<open>500 per dose\<close> under \<^verbatim>\<open>hpv_vaccine\<close> gives
  \<^verbatim>\<open>cost = None\<close>, while an amount after \<^verbatim>\<open>U+00E2\<close> is extracted. The amount after a
  dollar sign is extracted with its commas removed.
\<close>

theorem rupee_amount_is_not_extracted:
  "extract_cost (lower (lit ''Cost '' @ [8377] @ lit ''500 per dose'')) = PyNone \<and>
   extract_relevant_data
     [Some (map_of [(''pmid'', PyStr (lit ''11'')),
                    (''abstract'', PyStr (lit ''Cost '' @ [8377] @ lit ''500 per dose''))])]
     (lit ''hpv_vaccine'') =
     Inr [[(''pmid'', PyStr (lit ''11'')), (''title'', PyNone), (''year'', PyNone),
           (''doi'', PyNone), (''cost'', PyNone)]] \<and>
   extract_cost (lower (lit ''Cost '' @ [226] @ lit ''500 per dose'')) = PyStr (lit ''500'') \<and>
   extract_cost (lower (lit ''cost of $1,200.50 per dose'')) = PyStr (lit ''1200.50'')"
proof (intro conjI)
  show "extract_cost (lower (lit ''Cost '' @ [8377] @ lit ''500 per dose'')) = PyNone"
    by (simp add: eval_simps)
  show "extract_relevant_data
     [Some (map_of [(''pmid'', PyStr (lit ''11'')),
                    (''abstract'', PyStr (lit ''Cost '' @ [8377] @ lit ''500 per dose''))])]
     (lit ''hpv_vaccine'') =
     Inr [[(''pmid'', PyStr (lit ''11'')), (''title'', PyNone), (''year'', PyNone),
           (''doi'', PyNone), (''cost'', PyNone)]]"
    by (simp add: eval_simps)
  show "extract_cost (lower (lit ''Cost '' @ [226] @ lit ''500 per dose'')) = PyStr (lit ''500'')"
    by (simp add: eval_simps)
  show "extract_cost (lower (lit ''cost of $1,200.50 per dose'')) = PyStr (lit ''1200.50'')"
    by (simp add: eval_simps)
qed

text \<open>
  C5. For a well-typed batch, extraction under a project type that is none of
  \<^verbatim>\<open>hpv_vaccine\<close>, \<^verbatim>\<open>ncd_screening\<close>, \<^verbatim>\<open>dialysis\<close>, \<^verbatim>\<open>mdrtb\<close>, \<^verbatim>\<open>ai_tb_cxr\<close>
  (the fallback \<^verbatim>\<open>general\<close> among them) returns the empty sequence: no rule applies,
  the data point of every article holds the four baseline fields only, and every record
  is dropped.
\<close>

theorem unrecognized_category_yields_nothing:
  assumes "well_typed_batch articles"
    and "project_type \<notin> {lit ''hpv_vaccine'', lit ''ncd_screening'', lit ''dialysis'',
           lit ''mdrtb'', lit ''ai_tb_cxr''}"
  shows "extract_relevant_data articles project_type = Inr [] \<and>
         (\<forall>article. Some article \<in> set articles \<longrightarrow>
            data_point_of project_type article = baseline article)"
proof -
  from assms(2) have r: "rules project_type = []" by (rule rules_unrecognized)
  then have "\<And>article. \<not> retained (data_point_of project_type article)"
    by (simp add: retained_iff_fires)
  with assms(1) have "extract_relevant_data articles project_type = Inr []"
    by (simp add: extract_relevant_data_well_typed)
  moreover have "\<And>article. data_point_of project_type article = baseline article"
    by (simp add: data_point_of_eq r)
  ultimately show ?thesis by simp
qed

theorem unrecognized_category_yields_nothing_witness:
  "well_typed_batch [Some (map_of [(''pmid'', PyStr (lit ''7'')),
        (''abstract'', PyStr (lit ''Efficacy was 85% and the cost $12''))])] \<and>
   lit ''general'' \<notin> {lit ''hpv_vaccine'', lit ''ncd_screening'', lit ''dialysis'',
           lit ''mdrtb'', lit ''ai_tb_cxr''} \<and>
   extract_relevant_data [Some (map_of [(''pmid'', PyStr (lit ''7'')),
        (''abstract'', PyStr (lit ''Efficacy was 85% and the cost $12''))])] (lit ''general'')
     = Inr []"
proof -
  let ?a = "map_of [(''pmid'', PyStr (lit ''7'')),
        (''abstract'', PyStr (lit ''Efficacy was 85% and the cost $12''))]"
  have wt: "well_typed_batch [Some ?a]"
    by (simp add: well_typed_def dict_get_def)
  have pt: "lit ''general'' \<notin> {lit ''hpv_vaccine'', lit ''ncd_screening'', lit ''dialysis'',
           lit ''mdrtb'', lit ''ai_tb_cxr''}"
    by (simp add: lit_def)
  from unrecognized_category_yields_nothing [OF wt pt] wt pt show ?thesis by simp
qed

text \<open>
  C6. For a well-typed batch the output is the sequence of the data points of the
  articles at a strictly increasing sequence of positions of the input: each output data
  point comes from one input record, and two retained data points stand in the order of
  their source records.
\<close>

theorem output_preserves_input_order:
  assumes "well_typed_batch articles"
  shows "\<exists>idx. sorted_wrt (<) idx \<and>
           (\<forall>i \<in> set idx. i < length articles \<and> articles ! i \<noteq> None) \<and>
           extract_relevant_data articles project_type =
             Inr (map (\<lambda>i. data_point_of project_type (the (articles ! i))) idx)"
proof -
  let ?idx = "filter (\<lambda>i. articles ! i \<noteq> None \<and>
      retained (data_point_of project_type (the (articles ! i)))) [0..<length articles]"
  have "sorted_wrt (<) ?idx"
    by (rule sorted_wrt_filter) simp
  moreover have "\<forall>i \<in> set ?idx. i < length articles \<and> articles ! i \<noteq> None"
    by simp
  moreover have "extract_relevant_data articles project_type =
      Inr (map (\<lambda>i. data_point_of project_type (the (articles ! i))) ?idx)"
    using assms by (simp only: extract_relevant_data_well_typed filter_records_index)
  ultimately show ?thesis by blast
qed

theorem output_preserves_input_order_witness:
  "well_typed_batch
     [Some (fetched ''1'' ''A'' ''Uptake was 70%''), Some (fetched ''2'' ''B'' ''Nothing''),
      None, Some (fetched ''3'' ''C'' ''Price: $5'')] \<and>
   extract_relevant_data
     [Some (fetched ''1'' ''A'' ''Uptake was 70%''), Some (fetched ''2'' ''B'' ''Nothing''),
      None, Some (fetched ''3'' ''C'' ''Price: $5'')] (lit ''hpv_vaccine'') =
     Inr [[(''pmid'', PyStr (lit ''1'')), (''title'', PyStr (lit ''A'')),
           (''year'', PyStr (lit ''2021'')), (''doi'', PyStr []),
           (''coverage'', PyStr (lit ''70''))],
          [(''pmid'', PyStr (lit ''3'')), (''title'', PyStr (lit ''C'')),
           (''year'', PyStr (lit ''2021'')), (''doi'', PyStr []),
           (''cost'', PyStr (lit ''5''))]] \<and>
   (\<exists>idx. sorted_wrt (<) idx \<and>
      extract_relevant_data
        [Some (fetched ''1'' ''A'' ''Uptake was 70%''), Some (fetched ''2'' ''B'' ''Nothing''),
         None, Some (fetched ''3'' ''C'' ''Price: $5'')] (lit ''hpv_vaccine'') =
        Inr (map (\<lambda>i. data_point_of (lit ''hpv_vaccine'')
               (the ([Some (fetched ''1'' ''A'' ''Uptake was 70%''),
                      Some (fetched ''2'' ''B'' ''Nothing''), None,
                      Some (fetched ''3'' ''C'' ''Price: $5'')] ! i))) idx))"
proof -
  let ?b = "[Some (fetched ''1'' ''A'' ''Uptake was 70%''), Some (fetched ''2'' ''B'' ''Nothing''),
      None, Some (fetched ''3'' ''C'' ''Price: $5'')]"
  have wt: "well_typed_batch ?b"
    by (simp add: well_typed_fetched)
  have ev: "extract_relevant_data ?b (lit ''hpv_vaccine'') =
     Inr [[(''pmid'', PyStr (lit ''1'')), (''title'', PyStr (lit ''A'')),
           (''year'', PyStr (lit ''2021'')), (''doi'', PyStr []),
           (''coverage'', PyStr (lit ''70''))],
          [(''pmid'', PyStr (lit ''3'')), (''title'', PyStr (lit ''C'')),
           (''year'', PyStr (lit ''2021'')), (''doi'', PyStr []),
           (''cost'', PyStr (lit ''5''))]]"
    by (simp add: eval_simps)
  from output_preserves_input_order [OF wt, of "lit ''hpv_vaccine''"]
  have "\<exists>idx. sorted_wrt (<) idx \<and>
      extract_relevant_data ?b (lit ''hpv_vaccine'') =
        Inr (map (\<lambda>i. data_point_of (lit ''hpv_vaccine'') (the (?b ! i))) idx)"
    by blast
  with wt ev show ?thesis by (intro conjI)
qed

text \<open>
  C7. The keys of a data point are the four baseline keys and keys of rules of the active
  project type that fired, and of no other project type. Under \<^verbatim>\<open>hpv_vaccine\<close> a data
  point never has a \<^verbatim>\<open>sensitivity\<close> field, and has an \<^verbatim>\<open>efficacy\<close> field when the
  abstract mentions efficacy; under \<^verbatim>\<open>ncd_screening\<close> it never has an \<^verbatim>\<open>efficacy\<close>
  field, and has a \<^verbatim>\<open>sensitivity\<close> field when the abstract mentions sensitivity. The
  abstract \<^verbatim>\<open>Sensitivity: 80% and efficacy: 70%\<close> gives one data point with the metric
  \<^verbatim>\<open>efficacy\<close> alone under the first and with \<^verbatim>\<open>sensitivity\<close> alone under the second.
\<close>

theorem metric_rules_are_per_category:
  "''sensitivity'' \<notin> fst ` set (data_point_of (lit ''hpv_vaccine'') article) \<and>
   ''efficacy'' \<notin> fst ` set (data_point_of (lit ''ncd_screening'') article) \<and>
   (str_in (lit ''efficacy'') (normalized_abstract article) \<longrightarrow>
      ''efficacy'' \<in> fst ` set (data_point_of (lit ''hpv_vaccine'') article)) \<and>
   (str_in (lit ''sensitivity'') (normalized_abstract article) \<longrightarrow>
      ''sensitivity'' \<in> fst ` set (data_point_of (lit ''ncd_screening'') article)) \<and>
   fst ` set (data_point_of project_type article) \<subseteq>
      set baseline_keys \<union> (\<lambda>r. fst (snd r)) ` set (rules project_type) \<and>
   extract_relevant_data
     [Some (fetched ''7'' ''Screening'' ''Sensitivity: 80% and efficacy: 70%'')]
     (lit ''hpv_vaccine'') =
     Inr [[(''pmid'', PyStr (lit ''7'')), (''title'', PyStr (lit ''Screening'')),
           (''year'', PyStr (lit ''2021'')), (''doi'', PyStr []),
           (''efficacy'', PyStr (lit ''80''))]] \<and>
   extract_relevant_data
     [Some (fetched ''7'' ''Screening'' ''Sensitivity: 80% and efficacy: 70%'')]
     (lit ''ncd_screening'') =
     Inr [[(''pmid'', PyStr (lit ''7'')), (''title'', PyStr (lit ''Screening'')),
           (''year'', PyStr (lit ''2021'')), (''doi'', PyStr []),
           (''sensitivity'', PyStr (lit ''80''))]]"
proof (intro conjI)
  show "''sensitivity'' \<notin> fst ` set (data_point_of (lit ''hpv_vaccine'') article)"
    by (auto simp: data_point_key_set rules_hpv_vaccine baseline_keys_def)
  show "''efficacy'' \<notin> fst ` set (data_point_of (lit ''ncd_screening'') article)"
    by (auto simp: data_point_key_set rules_ncd_screening baseline_keys_def)
  show "str_in (lit ''efficacy'') (normalized_abstract article) \<longrightarrow>
      ''efficacy'' \<in> fst ` set (data_point_of (lit ''hpv_vaccine'') article)"
    by (simp add: data_point_key_set rules_hpv_vaccine fires_def image_iff)
  show "str_in (lit ''sensitivity'') (normalized_abstract article) \<longrightarrow>
      ''sensitivity'' \<in> fst ` set (data_point_of (lit ''ncd_screening'') article)"
    by (simp add: data_point_key_set rules_ncd_screening fires_def image_iff)
  show "fst ` set (data_point_of project_type article) \<subseteq>
      set baseline_keys \<union> (\<lambda>r. fst (snd r)) ` set (rules project_type)"
    unfolding data_point_key_set by blast
  show "extract_relevant_data
     [Some (fetched ''7'' ''Screening'' ''Sensitivity: 80% and efficacy: 70%'')]
     (lit ''hpv_vaccine'') =
     Inr [[(''pmid'', PyStr (lit ''7'')), (''title'', PyStr (lit ''Screening'')),
           (''year'', PyStr (lit ''2021'')), (''doi'', PyStr []),
           (''efficacy'', PyStr (lit ''80''))]]"
    by (simp add: eval_simps)
  show "extract_relevant_data
     [Some (fetched ''7'' ''Screening'' ''Sensitivity: 80% and efficacy: 70%'')]
     (lit ''ncd_screening'') =
     Inr [[(''pmid'', PyStr (lit ''7'')), (''title'', PyStr (lit ''Screening'')),
           (''year'', PyStr (lit ''2021'')), (''doi'', PyStr []),
           (''sensitivity'', PyStr (lit ''80''))]]"
    by (simp add: eval_simps)
qed

theorem metric_rules_are_per_category_witness:
  "str_in (lit ''efficacy'')
     (normalized_abstract (fetched ''7'' ''Screening'' ''Sensitivity: 80% and efficacy: 70%'')) \<and>
   str_in (lit ''sensitivity'')
     (normalized_abstract (fetched ''7'' ''Screening'' ''Sensitivity: 80% and efficacy: 70%'')) \<and>
   ''efficacy'' \<in> fst ` set (data_point_of (lit ''hpv_vaccine'')
      (fetched ''7'' ''Screening'' ''Sensitivity: 80% and efficacy: 70%'')) \<and>
   ''sensitivity'' \<notin> fst ` set (data_point_of (lit ''hpv_vaccine'')
      (fetched ''7'' ''Screening'' ''Sensitivity: 80% and efficacy: 70%'')) \<and>
   ''sensitivity'' \<in> fst ` set (data_point_of (lit ''ncd_screening'')
      (fetched ''7'' ''Screening'' ''Sensitivity: 80% and efficacy: 70%'')) \<and>
   ''efficacy'' \<notin> fst ` set (data_point_of (lit ''ncd_screening'')
      (fetched ''7'' ''Screening'' ''Sensitivity: 80% and efficacy: 70%''))"
proof -
  let ?a = "fetched ''7'' ''Screening'' ''Sensitivity: 80% and efficacy: 70%''"
  have na: "normalized_abstract ?a = lit ''sensitivity: 80% and efficacy: 70%''"
    by (simp add: normalized_abstract_def eval_simps)
  have e: "str_in (lit ''efficacy'') (normalized_abstract ?a)"
    unfolding na by (simp add: eval_simps)
  have s: "str_in (lit ''sensitivity'') (normalized_abstract ?a)"
    unfolding na by (simp add: eval_simps)
  from metric_rules_are_per_category [of ?a "lit ''ai_tb_cxr''"] e s
  show ?thesis by blast
qed

text \<open>
  C8. For a well-typed batch (the abstract and the title of every article a string,
  \<^verbatim>\<open>None\<close> or missing; the other fields anything, also missing) and any project type
  the extractor returns a sequence and does not raise. An article whose title and
  abstract are empty or missing is never in the output, and a batch of one such article
  yields the empty sequence.
\<close>

theorem extractor_never_raises:
  assumes "well_typed_batch articles"
  shows "(\<exists>out. extract_relevant_data articles project_type = Inr out \<and>
            (\<forall>article. Some article \<in> set articles \<and> empty_text article \<longrightarrow>
               data_point_of project_type article \<notin> set out)) \<and>
         (\<forall>article. empty_text article \<longrightarrow>
            extract_relevant_data [Some article] project_type = Inr [])"
proof (rule conjI)
  let ?out = "filter retained (map (data_point_of project_type) (records articles))"
  have "extract_relevant_data articles project_type = Inr ?out"
    using assms by (rule extract_relevant_data_well_typed)
  moreover have "\<forall>article. Some article \<in> set articles \<and> empty_text article \<longrightarrow>
      data_point_of project_type article \<notin> set ?out"
    by (simp add: empty_text_not_retained)
  ultimately show "\<exists>out. extract_relevant_data articles project_type = Inr out \<and>
      (\<forall>article. Some article \<in> set articles \<and> empty_text article \<longrightarrow>
         data_point_of project_type article \<notin> set out)"
    by blast
next
  show "\<forall>article. empty_text article \<longrightarrow>
      extract_relevant_data [Some article] project_type = Inr []"
  proof (intro allI impI)
    fix article assume e: "empty_text article"
    then have "well_typed_batch [Some article]"
      by (simp add: empty_text_well_typed)
    then show "extract_relevant_data [Some article] project_type = Inr []"
      using e by (simp add: extract_relevant_data_well_typed empty_text_not_retained)
  qed
qed

theorem extractor_never_raises_witness:
  "well_typed_batch [Some Map.empty, None, Some (fetched ''3'' [] [])] \<and>
   empty_text Map.empty \<and> empty_text (fetched ''3'' [] []) \<and>
   extract_relevant_data [Some Map.empty, None, Some (fetched ''3'' [] [])]
     (lit ''ncd_screening'') = Inr [] \<and>
   extract_relevant_data [Some Map.empty] (lit ''ncd_screening'') = Inr []"
proof -
  have e1: "empty_text Map.empty"
    by (simp add: empty_text_def dict_get_def)
  have e2: "empty_text (fetched ''3'' [] [])"
    by (simp add: empty_text_def dict_get_def fetched_def lit_def)
  have wt: "well_typed_batch [Some Map.empty, None, Some (fetched ''3'' [] [])]"
    using e1 e2 by (simp add: empty_text_well_typed)
  have ev: "extract_relevant_data [Some Map.empty, None, Some (fetched ''3'' [] [])]
     (lit ''ncd_screening'') = Inr []"
    by (simp add: eval_simps)
  from extractor_never_raises [OF wt, of "lit ''ncd_screening''"] e1
  have "extract_relevant_data [Some Map.empty] (lit ''ncd_screening'') = Inr []"
    by blast
  with e1 e2 wt ev show ?thesis by simp
qed

text \<open>
  C9. In every data point of the output the first four fields are \<^verbatim>\<open>pmid\<close>,
  \<^verbatim>\<open>title\<close>, \<^verbatim>\<open>year\<close> and \<^verbatim>\<open>doi\<close> with the values \<^verbatim>\<open>article.get\<close> returns for
  its source article, as they are (no lower-casing). The fields after them depend on the
  abstract alone: two well-typed articles with the same abstract, whatever their titles
  and other fields, have the same metric fields, and either both are in the output or
  neither is.
\<close>

theorem baseline_verbatim_title_not_scanned:
  assumes "well_typed_batch articles" and "well_typed a1" and "well_typed a2"
    and "dict_get a1 ''abstract'' = dict_get a2 ''abstract''"
  shows "(\<exists>out. extract_relevant_data articles project_type = Inr out \<and>
            (\<forall>dp \<in> set out. \<exists>article. Some article \<in> set articles \<and>
               dp = data_point_of project_type article \<and>
               take 4 dp =
                 [(''pmid'', dict_get article ''pmid''), (''title'', dict_get article ''title''),
                  (''year'', dict_get article ''year''), (''doi'', dict_get article ''doi'')])) \<and>
         drop 4 (data_point_of project_type a1) = drop 4 (data_point_of project_type a2) \<and>
         (\<exists>o1 o2. extract_relevant_data [Some a1] project_type = Inr o1 \<and>
            extract_relevant_data [Some a2] project_type = Inr o2 \<and>
            map (drop 4) o1 = map (drop 4) o2)"
proof (intro conjI)
  let ?out = "filter retained (map (data_point_of project_type) (records articles))"
  have "extract_relevant_data articles project_type = Inr ?out"
    using assms(1) by (rule extract_relevant_data_well_typed)
  moreover have "\<forall>dp \<in> set ?out. \<exists>article. Some article \<in> set articles \<and>
               dp = data_point_of project_type article \<and>
               take 4 dp =
                 [(''pmid'', dict_get article ''pmid''), (''title'', dict_get article ''title''),
                  (''year'', dict_get article ''year''), (''doi'', dict_get article ''doi'')]"
  proof
    fix dp assume "dp \<in> set ?out"
    then obtain article where a: "Some article \<in> set articles"
      and dp: "dp = data_point_of project_type article"
      by (auto simp: set_records)
    have "take 4 dp = baseline article"
      unfolding dp by (rule take_baseline)
    with a dp show "\<exists>article. Some article \<in> set articles \<and>
               dp = data_point_of project_type article \<and>
               take 4 dp =
                 [(''pmid'', dict_get article ''pmid''), (''title'', dict_get article ''title''),
                  (''year'', dict_get article ''year''), (''doi'', dict_get article ''doi'')]"
      unfolding baseline_def by blast
  qed
  ultimately show "\<exists>out. extract_relevant_data articles project_type = Inr out \<and>
            (\<forall>dp \<in> set out. \<exists>article. Some article \<in> set articles \<and>
               dp = data_point_of project_type article \<and>
               take 4 dp =
                 [(''pmid'', dict_get article ''pmid''), (''title'', dict_get article ''title''),
                  (''year'', dict_get article ''year''), (''doi'', dict_get article ''doi'')])"
    by blast
next
  have na: "normalized_abstract a1 = normalized_abstract a2"
    using assms(4) by (rule normalized_abstract_cong)
  show d: "drop 4 (data_point_of project_type a1) = drop 4 (data_point_of project_type a2)"
    by (simp add: drop_baseline na)
  have r: "retained (data_point_of project_type a1) = retained (data_point_of project_type a2)"
    by (simp add: retained_iff_fires na)
  show "\<exists>o1 o2. extract_relevant_data [Some a1] project_type = Inr o1 \<and>
            extract_relevant_data [Some a2] project_type = Inr o2 \<and>
            map (drop 4) o1 = map (drop 4) o2"
    using assms(2,3) d r by (simp add: extract_single)
qed

theorem baseline_verbatim_title_not_scanned_witness:
  "well_typed_batch [Some (fetched ''8'' ''HPV Vaccine: EFFICACY 99%, cost $5'' ''Efficacy was 85%'')] \<and>
   dict_get (fetched ''8'' ''HPV Vaccine: EFFICACY 99%, cost $5'' ''Efficacy was 85%'') ''abstract'' =
     dict_get (fetched ''9'' ''Untitled'' ''Efficacy was 85%'') ''abstract'' \<and>
   extract_relevant_data
     [Some (fetched ''8'' ''HPV Vaccine: EFFICACY 99%, cost $5'' ''Efficacy was 85%'')]
     (lit ''hpv_vaccine'') =
     Inr [[(''pmid'', PyStr (lit ''8'')),
           (''title'', PyStr (lit ''HPV Vaccine: EFFICACY 99%, cost $5'')),
           (''year'', PyStr (lit ''2021'')), (''doi'', PyStr []),
           (''efficacy'', PyStr (lit ''85''))]] \<and>
   extract_relevant_data [Some (fetched ''9'' ''Untitled'' ''Efficacy was 85%'')]
     (lit ''hpv_vaccine'') =
     Inr [[(''pmid'', PyStr (lit ''9'')), (''title'', PyStr (lit ''Untitled'')),
           (''year'', PyStr (lit ''2021'')), (''doi'', PyStr []),
           (''efficacy'', PyStr (lit ''85''))]] \<and>
   drop 4 (data_point_of (lit ''hpv_vaccine'')
      (fetched ''8'' ''HPV Vaccine: EFFICACY 99%, cost $5'' ''Efficacy was 85%'')) =
   drop 4 (data_point_of (lit ''hpv_vaccine'') (fetched ''9'' ''Untitled'' ''Efficacy was 85%''))"
proof -
  let ?a1 = "fetched ''8'' ''HPV Vaccine: EFFICACY 99%, cost $5'' ''Efficacy was 85%''"
  let ?a2 = "fetched ''9'' ''Untitled'' ''Efficacy was 85%''"
  have wb: "well_typed_batch [Some ?a1]" by (simp add: well_typed_fetched)
  have w1: "well_typed ?a1" and w2: "well_typed ?a2" by (rule well_typed_fetched)+
  have ab: "dict_get ?a1 ''abstract'' = dict_get ?a2 ''abstract''"
    by (simp add: fetched_def dict_get_def)
  have e1: "extract_relevant_data [Some ?a1] (lit ''hpv_vaccine'') =
     Inr [[(''pmid'', PyStr (lit ''8'')),
           (''title'', PyStr (lit ''HPV Vaccine: EFFICACY 99%, cost $5'')),
           (''year'', PyStr (lit ''2021'')), (''doi'', PyStr []),
           (''efficacy'', PyStr (lit ''85''))]]"
    by (simp add: eval_simps)
  have e2: "extract_relevant_data [Some ?a2] (lit ''hpv_vaccine'') =
     Inr [[(''pmid'', PyStr (lit ''9'')), (''title'', PyStr (lit ''Untitled'')),
           (''year'', PyStr (lit ''2021'')), (''doi'', PyStr []),
           (''efficacy'', PyStr (lit ''85''))]]"
    by (simp add: eval_simps)
  from baseline_verbatim_title_not_scanned [OF wb w1 w2 ab, of "lit ''hpv_vaccine''"]
  have "drop 4 (data_point_of (lit ''hpv_vaccine'') ?a1) =
        drop 4 (data_point_of (lit ''hpv_vaccine'') ?a2)"
    by blast
  with wb ab e1 e2 show ?thesis by (intro conjI)
qed

text \<open>
  C10. When two percentage rules of the project type both fire on the lower-cased
  abstract of an article, the two metric fields hold the same value: what
  \<^const>\<open>extract_percentage\<close> returns on the whole abstract (the first percentage of the
  abstract, or \<^verbatim>\<open>None\<close> when the abstract has none); the record is in the output.
\<close>

theorem percentage_rules_share_value:
  assumes "well_typed article"
    and "r1 \<in> set (rules project_type)" and "r2 \<in> set (rules project_type)"
    and "snd (snd r1) = Percentage" and "snd (snd r2) = Percentage"
    and "fires (normalized_abstract article) r1" and "fires (normalized_abstract article) r2"
  shows "map_of (data_point_of project_type article) (fst (snd r1)) =
           Some (extract_percentage (normalized_abstract article)) \<and>
         map_of (data_point_of project_type article) (fst (snd r2)) =
           Some (extract_percentage (normalized_abstract article)) \<and>
         extract_relevant_data [Some article] project_type =
           Inr [data_point_of project_type article]"
proof -
  from assms(2,6) have "map_of (data_point_of project_type article) (fst (snd r1)) =
      Some (extract_by (snd (snd r1)) (normalized_abstract article))"
    by (rule data_point_lookup)
  moreover from assms(3,7) have "map_of (data_point_of project_type article) (fst (snd r2)) =
      Some (extract_by (snd (snd r2)) (normalized_abstract article))"
    by (rule data_point_lookup)
  moreover from assms(2,6) have "retained (data_point_of project_type article)"
    unfolding retained_iff_fires by blast
  ultimately show ?thesis
    using assms(1,4,5) by (simp add: extract_single)
qed

theorem percentage_rules_share_value_witness:
  "well_typed (fetched ''6'' ''CXR'' ''Sensitivity 91.5% and specificity 78%'') \<and>
   map_of (data_point_of (lit ''ai_tb_cxr'')
     (fetched ''6'' ''CXR'' ''Sensitivity 91.5% and specificity 78%'')) ''sensitivity'' =
     Some (PyStr (lit ''91.5'')) \<and>
   map_of (data_point_of (lit ''ai_tb_cxr'')
     (fetched ''6'' ''CXR'' ''Sensitivity 91.5% and specificity 78%'')) ''specificity'' =
     Some (PyStr (lit ''91.5'')) \<and>
   extract_relevant_data [Some (fetched ''6'' ''CXR'' ''Sensitivity 91.5% and specificity 78%'')]
     (lit ''ai_tb_cxr'') =
     Inr [data_point_of (lit ''ai_tb_cxr'')
            (fetched ''6'' ''CXR'' ''Sensitivity 91.5% and specificity 78%'')]"
proof -
  let ?a = "fetched ''6'' ''CXR'' ''Sensitivity 91.5% and specificity 78%''"
  let ?r1 = "([''sensitivity''], ''sensitivity'', Percentage)"
  let ?r2 = "([''specificity''], ''specificity'', Percentage)"
  have wt: "well_typed ?a" by (rule well_typed_fetched)
  have r1: "?r1 \<in> set (rules (lit ''ai_tb_cxr''))" by (simp add: rules_def lit_def)
  have r2: "?r2 \<in> set (rules (lit ''ai_tb_cxr''))" by (simp add: rules_def lit_def)
  have k1: "snd (snd ?r1) = Percentage" by simp
  have k2: "snd (snd ?r2) = Percentage" by simp
  have na: "normalized_abstract ?a = lit ''sensitivity 91.5% and specificity 78%''"
    by (simp add: normalized_abstract_def eval_simps)
  have f1: "fires (normalized_abstract ?a) ?r1"
    unfolding na by (simp add: fires_def eval_simps)
  have f2: "fires (normalized_abstract ?a) ?r2"
    unfolding na by (simp add: fires_def eval_simps)
  have e: "extract_percentage (normalized_abstract ?a) = PyStr (lit ''91.5'')"
    unfolding na by (simp add: eval_simps)
  from percentage_rules_share_value [OF wt r1 r2 k1 k2 f1 f2] wt e
  show ?thesis by simp
qed

end
